theory Spec2Isabelle
  imports Main "HOL-Library.Sublist"
begin

section \<open>REDMANE FastAPI: schemas and routes\<close>

text \<open>
  A shallow embedding of \<^verbatim>\<open>app/schemas/schemas.py\<close> and of the row folding, query building
  and metadata update code of \<^verbatim>\<open>app/api/routes.py\<close>. Python exceptions are values of
  \<open>exn\<close>; a computation that may raise returns \<open>exn + 'a\<close> with \<open>Inl\<close> the raised exception.
\<close>

subsection \<open>Exceptions\<close>

text \<open>
  \<open>Error\<close> is \<^verbatim>\<open>psycopg2.Error\<close> with its message, \<open>HTTPException\<close> is FastAPI's exception
  with status code and detail, \<open>AttributeError\<close> carries the attribute name and
  \<open>ValueError\<close> its message.
\<close>

datatype exn =
    Error string
  | HTTPException int string
  | AttributeError string
  | ValueError string

subsection \<open>schemas.py: \<open>FileCreate.validate_file_type\<close>\<close>

text \<open>
  \<^verbatim>\<open>str(allowed)\<close> for a list of strings: the elements' \<^verbatim>\<open>repr\<close> separated by
  \<^verbatim>\<open>", "\<close> inside brackets. \<open>repr_str\<close> is Python's \<^verbatim>\<open>repr\<close> for a string with no quote,
  backslash or non-printable character (it wraps the text in single quotes), which is the
  case of the three allowed names. The offending value is interpolated as it is, between
  literal single quotes.
\<close>

definition repr_str :: "string \<Rightarrow> string" where
  "repr_str s = [CHR 0x27] @ s @ [CHR 0x27]"

fun join_str :: "string \<Rightarrow> string list \<Rightarrow> string" where
  "join_str sep [] = []"
| "join_str sep [x] = x"
| "join_str sep (x # y # ys) = x @ sep @ join_str sep (y # ys)"

definition str_list :: "string list \<Rightarrow> string" where
  "str_list xs = ''['' @ join_str '', '' (map repr_str xs) @ '']''"

definition allowed :: "string list" where
  "allowed = [''raw'', ''processed'', ''summarised'']"

definition validate_file_type :: "string \<Rightarrow> exn + string" where
  "validate_file_type v =
     (if v \<notin> set allowed
      then Inl (ValueError (''file_type must be one of '' @ str_list allowed
                            @ '', got '' @ [CHR 0x27] @ v @ [CHR 0x27]))
      else Inr v)"

subsection \<open>schemas.py: \<open>FileMetadataCreate\<close> and \<open>FileCreate\<close> (lines 99-115)\<close>

text \<open>
  Building a \<^verbatim>\<open>FileCreate\<close> runs the validator of \<^verbatim>\<open>file_type\<close>: the value the validator
  returns becomes the field, and the \<^verbatim>\<open>ValueError\<close> it raises makes the construction
  fail with that error (pydantic reports it, with its message, in the validation error
  of the model). The other fields are taken as given.
\<close>

record FileMetadataCreate =
  fmc_metadata_key :: string
  fmc_metadata_value :: string

record FileCreate =
  fc_dataset_id :: int
  fc_path :: string
  fc_file_type :: string
  fc_metadata :: "FileMetadataCreate list option"

definition FileCreate_init ::
  "int \<Rightarrow> string \<Rightarrow> string \<Rightarrow> FileMetadataCreate list option \<Rightarrow> exn + FileCreate" where
  "FileCreate_init dataset_id path file_type metadata =
     (case validate_file_type file_type of
        Inl e \<Rightarrow> Inl e
      | Inr v \<Rightarrow>
          Inr \<lparr>fc_dataset_id = dataset_id, fc_path = path, fc_file_type = v,
               fc_metadata = metadata\<rparr>)"

text \<open>
  Modelled from the spec: the route that receives a \<^verbatim>\<open>FileCreate\<close> is missing from
  \<^verbatim>\<open>routes.py\<close> (its only insert route, \<^verbatim>\<open>add_raw_files\<close>, is declared on \<^verbatim>\<open>RawFileCreate\<close>,
  a name that \<^verbatim>\<open>schemas.py\<close> does not define, and it never reads \<^verbatim>\<open>file_type\<close>). The
  specification, section 7, says of a validation failure, "e.g., an enumerated field
  outside its allowed set", that it is "rejected before any store interaction, with the
  offending value and allowed set named in the error", and section 1 puts the validation
  layer before the code that talks to the store. So a create-file request first builds
  its \<^verbatim>\<open>FileCreate\<close> from the fields of the body; when that fails, the request ends with
  the error and the store as it was; otherwise the body of the route runs on the object
  and the store. The body of the route is a parameter: any function from the object and
  the store to a response or an exception and the store it leaves.
\<close>

definition create_file_request ::
  "(FileCreate \<Rightarrow> 'store \<Rightarrow> (exn + 'response) \<times> 'store)
   \<Rightarrow> int \<Rightarrow> string \<Rightarrow> string \<Rightarrow> FileMetadataCreate list option \<Rightarrow> 'store
   \<Rightarrow> (exn + 'response) \<times> 'store" where
  "create_file_request route_body dataset_id path file_type metadata store =
     (case FileCreate_init dataset_id path file_type metadata of
        Inl e \<Rightarrow> (Inl e, store)
      | Inr file \<Rightarrow> route_body file store)"

subsection \<open>routes.py: the rows of the joined queries\<close>

text \<open>
  A fetched row is a tuple read by position; the records below name the positions as the
  comments of the source do. Columns that come from the right side of a LEFT JOIN are
  nullable (\<open>None\<close> is Python's \<^verbatim>\<open>None\<close>).

  \<open>patient_row\<close> (\<^verbatim>\<open>get_patients_metadata\<close>, first query):
  \<^verbatim>\<open>[p.id, p.project_id, p.ext_patient_id, p.ext_patient_url, p.public_patient_id,
   pm.id, pm.key, pm.value]\<close>.
\<close>

record patient_row =
  pr_p_id :: int
  pr_p_project_id :: int
  pr_p_ext_patient_id :: string
  pr_p_ext_patient_url :: string
  pr_p_public_patient_id :: "string option"
  pr_pm_id :: "int option"
  pr_pm_key :: "string option"
  pr_pm_value :: "string option"

text \<open>
  \<open>sample_row\<close> (\<^verbatim>\<open>get_patients_metadata\<close>, the query run for each patient):
  \<^verbatim>\<open>[s.id, s.patient_id, s.ext_sample_id, s.ext_sample_url, sm.id, sm.key, sm.value]\<close>.
\<close>

record sample_row =
  sr_s_id :: int
  sr_s_patient_id :: int
  sr_s_ext_sample_id :: string
  sr_s_ext_sample_url :: string
  sr_sm_id :: "int option"
  sr_sm_key :: "string option"
  sr_sm_value :: "string option"

text \<open>
  \<open>sample_patient_row\<close> (\<^verbatim>\<open>get_samples_per_patient\<close>):
  \<^verbatim>\<open>[sample_id, patient_id, ext_sample_id, ext_sample_url, metadata_id, key, value,
   pat_id, project_id, ext_pat_id, ext_pat_url, public_pat_id]\<close>.
\<close>

record sample_patient_row =
  spr_sample_id :: int
  spr_patient_id :: int
  spr_ext_sample_id :: string
  spr_ext_sample_url :: string
  spr_metadata_id :: "int option"
  spr_key :: "string option"
  spr_value :: "string option"
  spr_pat_id :: int
  spr_project_id :: int
  spr_ext_pat_id :: string
  spr_ext_pat_url :: string
  spr_public_pat_id :: "string option"

subsection \<open>routes.py: the assembled objects\<close>

text \<open>The dictionaries the handlers build, one record per shape, a field per key.\<close>

record patient_metadata =
  pm_id :: int
  pm_patient_id :: int
  pm_key :: "string option"
  pm_value :: "string option"

record sample_metadata =
  sm_id :: int
  sm_sample_id :: int
  sm_key :: "string option"
  sm_value :: "string option"

record sample_without_patient =
  s_id :: int
  s_patient_id :: int
  s_ext_sample_id :: string
  s_ext_sample_url :: string
  s_metadata :: "sample_metadata list"

record patient_with_samples =
  p_id :: int
  p_project_id :: int
  p_ext_patient_id :: string
  p_ext_patient_url :: string
  p_public_patient_id :: "string option"
  p_samples :: "sample_without_patient list"
  p_metadata :: "patient_metadata list"

record patient =
  pat_id :: int
  pat_project_id :: int
  pat_ext_patient_id :: string
  pat_ext_patient_url :: string
  pat_public_patient_id :: "string option"

record sample =
  sp_id :: int
  sp_patient_id :: int
  sp_ext_sample_id :: string
  sp_ext_sample_url :: string
  sp_metadata :: "sample_metadata list"
  sp_patient :: patient

subsection \<open>routes.py: \<open>get_patients_metadata\<close>, folding the patient rows (lines 134-161)\<close>

text \<open>
  \<^verbatim>\<open>current_patient\<close> is \<^verbatim>\<open>None\<close> or a non-empty dictionary, so
  \<^verbatim>\<open>not current_patient\<close> holds exactly for \<open>None\<close>. \<^verbatim>\<open>if row[5]:\<close> tests the truth value
  of the column: \<^verbatim>\<open>None\<close> and the integer \<open>0\<close> are false, every other integer is true.
  The loop is a recursion over the rows that carries \<^verbatim>\<open>patients\<close> and
  \<^verbatim>\<open>current_patient\<close>; the dictionary that \<^verbatim>\<open>current_patient\<close> names is in
  \<^verbatim>\<open>patients\<close> only after it was sealed, so no update is seen through an alias.
\<close>

definition new_patient :: "patient_row \<Rightarrow> patient_with_samples" where
  "new_patient row =
     \<lparr>p_id = pr_p_id row, p_project_id = pr_p_project_id row,
      p_ext_patient_id = pr_p_ext_patient_id row,
      p_ext_patient_url = pr_p_ext_patient_url row,
      p_public_patient_id = pr_p_public_patient_id row,
      p_samples = [], p_metadata = []\<rparr>"

definition append_patient_metadata ::
  "patient_row \<Rightarrow> patient_with_samples \<Rightarrow> patient_with_samples" where
  "append_patient_metadata row current_patient =
     (case pr_pm_id row of
        None \<Rightarrow> current_patient
      | Some i \<Rightarrow>
          if i \<noteq> 0
          then current_patient
                 \<lparr>p_metadata := p_metadata current_patient @
                    [\<lparr>pm_id = i, pm_patient_id = pr_p_id row,
                      pm_key = pr_pm_key row, pm_value = pr_pm_value row\<rparr>]\<rparr>
          else current_patient)"

fun patients_loop ::
  "patient_row list \<Rightarrow> patient_with_samples list \<Rightarrow> patient_with_samples option
   \<Rightarrow> patient_with_samples list \<times> patient_with_samples option" where
  "patients_loop [] patients current_patient = (patients, current_patient)"
| "patients_loop (row # rows) patients current_patient =
     (case current_patient of
        None \<Rightarrow>
          patients_loop rows patients
            (Some (append_patient_metadata row (new_patient row)))
      | Some c \<Rightarrow>
          if p_id c \<noteq> pr_p_id row
          then patients_loop rows (patients @ [c])
                 (Some (append_patient_metadata row (new_patient row)))
          else patients_loop rows patients (Some (append_patient_metadata row c)))"

definition get_patients_metadata_patients ::
  "patient_row list \<Rightarrow> patient_with_samples list" where
  "get_patients_metadata_patients rows =
     (case patients_loop rows [] None of
        (patients, None) \<Rightarrow> patients
      | (patients, Some c) \<Rightarrow> patients @ [c])"

subsection \<open>routes.py: \<open>get_patients_metadata\<close>, folding one patient's sample rows (lines 178-201)\<close>

text \<open>
  The same fold one level down: the result is what the loop appends to the patient's
  \<^verbatim>\<open>'samples'\<close>, which starts empty.
\<close>

definition new_sample :: "sample_row \<Rightarrow> sample_without_patient" where
  "new_sample sample_row =
     \<lparr>s_id = sr_s_id sample_row, s_patient_id = sr_s_patient_id sample_row,
      s_ext_sample_id = sr_s_ext_sample_id sample_row,
      s_ext_sample_url = sr_s_ext_sample_url sample_row,
      s_metadata = []\<rparr>"

definition append_sample_metadata ::
  "sample_row \<Rightarrow> sample_without_patient \<Rightarrow> sample_without_patient" where
  "append_sample_metadata sample_row current_sample =
     (case sr_sm_id sample_row of
        None \<Rightarrow> current_sample
      | Some i \<Rightarrow>
          if i \<noteq> 0
          then current_sample
                 \<lparr>s_metadata := s_metadata current_sample @
                    [\<lparr>sm_id = i, sm_sample_id = sr_s_id sample_row,
                      sm_key = sr_sm_key sample_row, sm_value = sr_sm_value sample_row\<rparr>]\<rparr>
          else current_sample)"

fun samples_loop ::
  "sample_row list \<Rightarrow> sample_without_patient list \<Rightarrow> sample_without_patient option
   \<Rightarrow> sample_without_patient list \<times> sample_without_patient option" where
  "samples_loop [] samples current_sample = (samples, current_sample)"
| "samples_loop (sample_row # sample_rows) samples current_sample =
     (case current_sample of
        None \<Rightarrow>
          samples_loop sample_rows samples
            (Some (append_sample_metadata sample_row (new_sample sample_row)))
      | Some c \<Rightarrow>
          if s_id c \<noteq> sr_s_id sample_row
          then samples_loop sample_rows (samples @ [c])
                 (Some (append_sample_metadata sample_row (new_sample sample_row)))
          else samples_loop sample_rows samples
                 (Some (append_sample_metadata sample_row c)))"

definition get_patients_metadata_samples ::
  "sample_row list \<Rightarrow> sample_without_patient list" where
  "get_patients_metadata_samples sample_rows =
     (case samples_loop sample_rows [] None of
        (samples, None) \<Rightarrow> samples
      | (samples, Some c) \<Rightarrow> samples @ [c])"

subsection \<open>routes.py: \<open>get_samples_per_patient\<close>, folding the sample rows (lines 251-286)\<close>

definition new_sample_with_patient :: "sample_patient_row \<Rightarrow> sample" where
  "new_sample_with_patient row =
     \<lparr>sp_id = spr_sample_id row, sp_patient_id = spr_patient_id row,
      sp_ext_sample_id = spr_ext_sample_id row,
      sp_ext_sample_url = spr_ext_sample_url row,
      sp_metadata = [],
      sp_patient =
        \<lparr>pat_id = spr_pat_id row, pat_project_id = spr_project_id row,
         pat_ext_patient_id = spr_ext_pat_id row,
         pat_ext_patient_url = spr_ext_pat_url row,
         pat_public_patient_id = spr_public_pat_id row\<rparr>\<rparr>"

definition append_metadata :: "sample_patient_row \<Rightarrow> sample \<Rightarrow> sample" where
  "append_metadata row current_sample =
     (case spr_metadata_id row of
        None \<Rightarrow> current_sample
      | Some i \<Rightarrow>
          if i \<noteq> 0
          then current_sample
                 \<lparr>sp_metadata := sp_metadata current_sample @
                    [\<lparr>sm_id = i, sm_sample_id = spr_sample_id row,
                      sm_key = spr_key row, sm_value = spr_value row\<rparr>]\<rparr>
          else current_sample)"

fun samples_per_patient_loop ::
  "sample_patient_row list \<Rightarrow> sample list \<Rightarrow> sample option
   \<Rightarrow> sample list \<times> sample option" where
  "samples_per_patient_loop [] samples current_sample = (samples, current_sample)"
| "samples_per_patient_loop (row # rows) samples current_sample =
     (case current_sample of
        None \<Rightarrow>
          samples_per_patient_loop rows samples
            (Some (append_metadata row (new_sample_with_patient row)))
      | Some c \<Rightarrow>
          if sp_id c \<noteq> spr_sample_id row
          then samples_per_patient_loop rows (samples @ [c])
                 (Some (append_metadata row (new_sample_with_patient row)))
          else samples_per_patient_loop rows samples (Some (append_metadata row c)))"

definition get_samples_per_patient_samples :: "sample_patient_row list \<Rightarrow> sample list" where
  "get_samples_per_patient_samples rows =
     (case samples_per_patient_loop rows [] None of
        (samples, None) \<Rightarrow> samples
      | (samples, Some c) \<Rightarrow> samples @ [c])"

subsection \<open>routes.py: the query builders of \<open>get_datasets\<close> (lines 368-379) and \<open>get_patients\<close> (lines 303-317)\<close>

text \<open>
  Each builder returns the query text and the parameter list that the handler passes to
  \<^verbatim>\<open>cursor.execute\<close>. \<open>CHR 0x0A\<close> is the newline of the triple-quoted literal.
\<close>

definition get_datasets_query :: "int option \<Rightarrow> int option \<Rightarrow> string \<times> int list" where
  "get_datasets_query project_id dataset_id =
     (let query = ''SELECT id, project_id, name FROM datasets WHERE 1=1'';
          params = [];
          (query, params) =
            (case project_id of
               None \<Rightarrow> (query, params)
             | Some v \<Rightarrow> (query @ '' AND project_id = %s'', params @ [v]));
          (query, params) =
            (case dataset_id of
               None \<Rightarrow> (query, params)
             | Some v \<Rightarrow> (query @ '' AND id = %s'', params @ [v]))
      in (query, params))"

definition get_patients_query :: "int option \<Rightarrow> string \<times> int list" where
  "get_patients_query project_id =
     (let query =
            [CHR 0x0A] @
            ''            SELECT p.id, p.project_id, p.ext_patient_id, p.ext_patient_url,'' @ [CHR 0x0A] @
            ''                   p.public_patient_id, COUNT(s.id) AS sample_count'' @ [CHR 0x0A] @
            ''            FROM patients p'' @ [CHR 0x0A] @
            ''            LEFT JOIN samples s ON p.id = s.patient_id'' @ [CHR 0x0A] @
            ''        '';
          params = [];
          (query, params) =
            (case project_id of
               None \<Rightarrow> (query, params)
             | Some v \<Rightarrow> (query @ '' WHERE p.project_id = %s'', params @ [v]));
          query = query @ '' GROUP BY p.id ORDER BY p.id''
      in (query, params))"

subsection \<open>The relational store\<close>

text \<open>
  The tables the two dataset handlers read and write, as lists of rows. The column
  \<^verbatim>\<open>value\<close> of \<^verbatim>\<open>datasets_metadata\<close> holds the Python value that was bound to its
  placeholder.
\<close>

datatype pyval = PyNone | PyInt int | PyStr string

fun truthy :: "pyval \<Rightarrow> bool" where
  "truthy PyNone = False"
| "truthy (PyInt i) = (i \<noteq> 0)"
| "truthy (PyStr s) = (s \<noteq> [])"

record dataset_row =
  d_id :: int
  d_project_id :: int
  d_name :: string

record dataset_metadata_row =
  dm_id :: int
  dm_dataset_id :: int
  dm_key :: string
  dm_value :: pyval

record database =
  datasets :: "dataset_row list"
  datasets_metadata :: "dataset_metadata_row list"

text \<open>
  The store is outside the program and may fail. \<open>outcomes\<close> lists what the successive
  interactions with it do, in order (\<^verbatim>\<open>get_connection()\<close>, each \<^verbatim>\<open>cursor.execute\<close>,
  \<^verbatim>\<open>conn.commit()\<close>): \<open>Some msg\<close> raises \<^verbatim>\<open>psycopg2.Error\<close> with that message, \<open>None\<close>
  succeeds, and so does every interaction past the end of the list.
\<close>

fun interaction :: "string option list \<Rightarrow> exn + string option list" where
  "interaction [] = Inr []"
| "interaction (None # outcomes) = Inr outcomes"
| "interaction (Some msg # outcomes) = Inl (Error msg)"

text \<open>\<^verbatim>\<open>cursor.fetchone()\<close>: the first row of the result, or \<^verbatim>\<open>None\<close>.\<close>

fun fetchone :: "'a list \<Rightarrow> 'a option" where
  "fetchone [] = None"
| "fetchone (row # rows) = Some row"

text \<open>
  \<^verbatim>\<open>except Error as e: raise HTTPException(status_code=500, detail=f"Database error: {e}")\<close>:
  the clause every handler ends with. It catches \<^verbatim>\<open>psycopg2.Error\<close> only; any other
  exception raised in the \<^verbatim>\<open>try\<close> block passes through.
\<close>

fun except_Error :: "exn + 'a \<Rightarrow> exn + 'a" where
  "except_Error (Inl (Error e)) = Inl (HTTPException 500 (''Database error: '' @ e))"
| "except_Error r = r"

subsection \<open>routes.py: \<open>get_dataset_with_metadata\<close> (lines 389-435)\<close>

record dataset_metadata =
  md_id :: int
  md_dataset_id :: int
  md_key :: string
  md_value :: pyval

record dataset_with_metadata =
  dwm_id :: int
  dwm_project_id :: int
  dwm_name :: string
  dwm_metadata :: "dataset_metadata list"

definition get_dataset_with_metadata ::
  "database \<Rightarrow> string option list \<Rightarrow> int \<Rightarrow> int \<Rightarrow> exn + dataset_with_metadata" where
  "get_dataset_with_metadata db outcomes dataset_id project_id =
     except_Error
       (case interaction outcomes of
          Inl e \<Rightarrow> Inl e
        | Inr outcomes1 \<Rightarrow>
       (case interaction outcomes1 of
          Inl e \<Rightarrow> Inl e
        | Inr outcomes2 \<Rightarrow>
       (case fetchone (filter (\<lambda>d. d_id d = dataset_id \<and> d_project_id d = project_id)
                         (datasets db)) of
          None \<Rightarrow> Inl (HTTPException 404 ''Dataset not found'')
        | Some dataset_row \<Rightarrow>
       (case interaction outcomes2 of
          Inl e \<Rightarrow> Inl e
        | Inr outcomes3 \<Rightarrow>
            Inr \<lparr>dwm_id = d_id dataset_row,
                 dwm_project_id = d_project_id dataset_row,
                 dwm_name = d_name dataset_row,
                 dwm_metadata =
                   map (\<lambda>row. \<lparr>md_id = dm_id row, md_dataset_id = dm_dataset_id row,
                                md_key = dm_key row, md_value = dm_value row\<rparr>)
                     (filter (\<lambda>row. dm_dataset_id row = dataset_id)
                        (datasets_metadata db))\<rparr>))))"

subsection \<open>schemas.py: \<open>MetadataUpdate\<close> (lines 33-36)\<close>

text \<open>
  The model declares three fields. A request field that is not declared is ignored when
  the model is built, and reading an attribute that is not a field raises
  \<^verbatim>\<open>AttributeError\<close>: \<open>MetadataUpdate_getattr\<close> is \<^verbatim>\<open>update.<name>\<close>.
\<close>

record MetadataUpdate =
  mu_dataset_id :: int
  mu_file_size :: "string option"
  mu_last_size_update :: "string option"

fun optional_str :: "string option \<Rightarrow> pyval" where
  "optional_str None = PyNone"
| "optional_str (Some s) = PyStr s"

definition MetadataUpdate_getattr :: "MetadataUpdate \<Rightarrow> string \<Rightarrow> exn + pyval" where
  "MetadataUpdate_getattr update name =
     (if name = ''dataset_id'' then Inr (PyInt (mu_dataset_id update))
      else if name = ''file_size'' then Inr (optional_str (mu_file_size update))
      else if name = ''last_size_update'' then Inr (optional_str (mu_last_size_update update))
      else Inl (AttributeError name))"

subsection \<open>routes.py: \<open>update_metadata\<close> (lines 495-574)\<close>

text \<open>
  Two things the statements of this handler leave to the server. Its SELECT has no
  ORDER BY, so when several rows match, the server decides which one \<^verbatim>\<open>fetchone\<close>
  returns: \<open>sv_first\<close> gives, for the matching rows, the position of that row (taken
  modulo their number). Its INSERT gives no id, so the table's sequence decides it:
  \<open>sv_nextval\<close> gives the id, for the table the row is inserted in. Every theorem about
  the handler holds for every such server.
\<close>

record server =
  sv_first :: "dataset_metadata_row list \<Rightarrow> nat"
  sv_nextval :: "dataset_metadata_row list \<Rightarrow> int"

definition fetchone_of :: "nat \<Rightarrow> 'a list \<Rightarrow> 'a option" where
  "fetchone_of n rows = (if rows = [] then None else Some (rows ! (n mod length rows)))"

text \<open>
  The two numbered blocks of the handler (lines 509-536 and 540-567) are the same
  statements with another key and another bound value: \<open>update_or_insert\<close> is that block,
  run on the uncommitted table. SELECT and \<^verbatim>\<open>fetchone\<close> give one of the rows for the key
  and the dataset, or \<^verbatim>\<open>None\<close> when there is none; UPDATE sets the value of the rows with
  the id of that row; INSERT adds a row with the id the sequence gives.
\<close>

definition update_or_insert ::
  "server \<Rightarrow> string \<Rightarrow> int \<Rightarrow> pyval \<Rightarrow> dataset_metadata_row list \<times> string option list
   \<Rightarrow> exn + dataset_metadata_row list \<times> string option list" where
  "update_or_insert sv key dataset_id v st =
     (case st of (table, outcomes) \<Rightarrow>
     (case interaction outcomes of
        Inl e \<Rightarrow> Inl e
      | Inr outcomes1 \<Rightarrow>
     (case (let matching =
                  filter (\<lambda>row. dm_key row = key \<and> dm_dataset_id row = dataset_id) table
            in fetchone_of (sv_first sv matching) matching) of
        Some record \<Rightarrow>
          (case interaction outcomes1 of
             Inl e \<Rightarrow> Inl e
           | Inr outcomes2 \<Rightarrow>
               Inr (map (\<lambda>row. if dm_id row = dm_id record then row\<lparr>dm_value := v\<rparr> else row)
                      table,
                    outcomes2))
      | None \<Rightarrow>
          (case interaction outcomes1 of
             Inl e \<Rightarrow> Inl e
           | Inr outcomes2 \<Rightarrow>
               Inr (table @ [\<lparr>dm_id = sv_nextval sv table, dm_dataset_id = dataset_id,
                               dm_key = key, dm_value = v\<rparr>],
                    outcomes2)))))"

text \<open>
  The handler returns the response or the exception it raises, and the store it leaves.
  Statements run in one transaction that only \<^verbatim>\<open>conn.commit()\<close> makes durable: when an
  exception leaves the handler before the commit, the store is as it was.
\<close>

definition update_metadata ::
  "server \<Rightarrow> database \<Rightarrow> string option list \<Rightarrow> MetadataUpdate
   \<Rightarrow> (exn + MetadataUpdate) \<times> database" where
  "update_metadata sv db outcomes update =
     (case except_Error
        (case interaction outcomes of
           Inl e \<Rightarrow> Inl e
         | Inr outcomes1 \<Rightarrow>
        (case MetadataUpdate_getattr update ''raw_file_size'' of
           Inl e \<Rightarrow> Inl e
         | Inr raw_file_size \<Rightarrow>
        (case (if truthy raw_file_size
               then update_or_insert sv ''raw_file_extension_size_of_all_files''
                      (mu_dataset_id update) raw_file_size (datasets_metadata db, outcomes1)
               else Inr (datasets_metadata db, outcomes1)) of
           Inl e \<Rightarrow> Inl e
         | Inr st1 \<Rightarrow>
        (case MetadataUpdate_getattr update ''last_size_update'' of
           Inl e \<Rightarrow> Inl e
         | Inr last_size_update \<Rightarrow>
        (case (if truthy last_size_update
               then update_or_insert sv ''last_size_update''
                      (mu_dataset_id update) last_size_update st1
               else Inr st1) of
           Inl e \<Rightarrow> Inl e
         | Inr (table, outcomes2) \<Rightarrow>
        (case interaction outcomes2 of
           Inl e \<Rightarrow> Inl e
         | Inr outcomes3 \<Rightarrow> Inr (update, db\<lparr>datasets_metadata := table\<rparr>))))))) of
        Inl e \<Rightarrow> (Inl e, db)
      | Inr (response, db') \<Rightarrow> (Inr response, db'))"

subsection \<open>What one row contributes\<close>

text \<open>
  The entries that one row adds to the metadata list of the object it belongs to: what
  the guarded \<^verbatim>\<open>append\<close> of the loop leaves in the list of a fresh object. It is empty
  or a single entry.
\<close>

definition patient_row_entries :: "patient_row \<Rightarrow> patient_metadata list" where
  "patient_row_entries row = p_metadata (append_patient_metadata row (new_patient row))"

definition sample_row_entries :: "sample_row \<Rightarrow> sample_metadata list" where
  "sample_row_entries sample_row =
     s_metadata (append_sample_metadata sample_row (new_sample sample_row))"

definition sample_patient_row_entries :: "sample_patient_row \<Rightarrow> sample_metadata list" where
  "sample_patient_row_entries row =
     sp_metadata (append_metadata row (new_sample_with_patient row))"

subsection \<open>Vocabulary of the specification\<close>

text \<open>
  The order in which the values of a list are first seen: each value once, at the place
  of its first occurrence. This follows the words of the specification; it is what the
  ids of the assembled parents are compared with.
\<close>

fun first_seen :: "'a list \<Rightarrow> 'a list" where
  "first_seen [] = []"
| "first_seen (x # xs) = x # filter (\<lambda>y. y \<noteq> x) (first_seen xs)"

section \<open>Properties of the row folds\<close>

subsection \<open>First-seen order\<close>

lemma set_first_seen: "set (first_seen xs) = set xs"
  by (induction xs) auto

lemma distinct_first_seen: "distinct (first_seen xs)"
  by (induction xs) (auto simp: set_first_seen)

lemma length_first_seen: "length (first_seen xs) = card (set xs)"
  using distinct_card [OF distinct_first_seen, of xs] by (simp add: set_first_seen)

lemma first_seen_absent: "x \<notin> set xs \<Longrightarrow> filter (\<lambda>y. y \<noteq> x) (first_seen xs) = first_seen xs"
  by (auto simp: set_first_seen filter_id_conv)

lemma remdups_adj_sorted_first_seen:
  "sorted xs \<Longrightarrow> remdups_adj xs = first_seen (xs :: int list)"
proof (induction xs rule: remdups_adj.induct)
  case 1
  then show ?case by simp
next
  case (2 x)
  then show ?case by simp
next
  case (3 x y xs)
  show ?case
  proof (cases "x = y")
    case True
    with 3 show ?thesis by simp
  next
    case False
    with "3.prems" have "x \<notin> set (y # xs)" by auto
    then have "filter (\<lambda>z. z \<noteq> x) (first_seen (y # xs)) = first_seen (y # xs)"
      by (rule first_seen_absent)
    with False 3 show ?thesis by simp
  qed
qed

subsection \<open>The patient fold: ids and metadata\<close>

lemma p_id_append_patient_metadata [simp]:
  "p_id (append_patient_metadata row c) = p_id c"
  by (simp add: append_patient_metadata_def split: option.splits)

lemma p_id_new_patient [simp]: "p_id (new_patient row) = pr_p_id row"
  by (simp add: new_patient_def)

lemma patients_loop_ids:
  "patients_loop rows ps cur = (ps', cur') \<Longrightarrow>
   map p_id ps' @ (case cur' of None \<Rightarrow> [] | Some c \<Rightarrow> [p_id c]) =
   map p_id ps @ remdups_adj ((case cur of None \<Rightarrow> [] | Some c \<Rightarrow> [p_id c]) @ map pr_p_id rows)"
proof (induction rows arbitrary: ps cur)
  case Nil
  then show ?case by (auto split: option.splits)
next
  case (Cons row rows)
  then show ?case
    by (cases cur) (auto split: if_splits)
qed

lemma get_patients_metadata_patients_ids:
  "map p_id (get_patients_metadata_patients rows) = remdups_adj (map pr_p_id rows)"
proof -
  obtain ps' cur' where l: "patients_loop rows [] None = (ps', cur')"
    by (cases "patients_loop rows [] None")
  from patients_loop_ids [OF l] show ?thesis
    by (cases cur') (simp_all add: get_patients_metadata_patients_def l)
qed

lemma patient_row_entries_eq:
  "patient_row_entries row =
   (case pr_pm_id row of
      None \<Rightarrow> []
    | Some i \<Rightarrow>
        if i = 0 then []
        else [\<lparr>pm_id = i, pm_patient_id = pr_p_id row,
               pm_key = pr_pm_key row, pm_value = pr_pm_value row\<rparr>])"
  by (simp add: patient_row_entries_def append_patient_metadata_def new_patient_def
      split: option.splits)

lemma p_metadata_append_patient_metadata [simp]:
  "p_metadata (append_patient_metadata row c) = p_metadata c @ patient_row_entries row"
  by (simp add: patient_row_entries_def append_patient_metadata_def new_patient_def
      split: option.splits)

lemma patients_loop_concat:
  "patients_loop rows ps cur = (ps', cur') \<Longrightarrow>
   concat (map p_metadata ps') @ (case cur' of None \<Rightarrow> [] | Some c \<Rightarrow> p_metadata c) =
   concat (map p_metadata ps) @ (case cur of None \<Rightarrow> [] | Some c \<Rightarrow> p_metadata c) @
   concat (map patient_row_entries rows)"
proof (induction rows arbitrary: ps cur)
  case Nil
  then show ?case by (auto split: option.splits)
next
  case (Cons row rows)
  then show ?case
    by (cases cur) (auto simp: new_patient_def split: if_splits)
qed

lemma patients_loop_metadata:
  "patients_loop rows ps cur = (ps', cur') \<Longrightarrow>
   sorted ((case cur of None \<Rightarrow> [] | Some c \<Rightarrow> [p_id c]) @ map pr_p_id rows) \<Longrightarrow>
   p \<in> set ps' \<union> set_option cur' \<Longrightarrow>
   p \<in> set ps \<or>
   p_id p \<in> set ((case cur of None \<Rightarrow> [] | Some c \<Rightarrow> [p_id c]) @ map pr_p_id rows) \<and>
   p_metadata p =
     (case cur of None \<Rightarrow> [] | Some c \<Rightarrow> if p_id c = p_id p then p_metadata c else []) @
     concat (map patient_row_entries (filter (\<lambda>row. pr_p_id row = p_id p) rows))"
proof (induction rows arbitrary: ps cur)
  case Nil
  then show ?case by (auto split: option.splits)
next
  case (Cons row rows)
  have fresh [simp]: "p_metadata (new_patient row) = []"
    by (simp add: new_patient_def)
  show ?case
  proof (cases cur)
    case None
    with Cons.prems have l: "patients_loop rows ps (Some (append_patient_metadata row (new_patient row))) = (ps', cur')"
      and s: "sorted ((case Some (append_patient_metadata row (new_patient row)) of None \<Rightarrow> [] | Some c \<Rightarrow> [p_id c]) @ map pr_p_id rows)"
      by simp_all
    from Cons.IH [OF l s Cons.prems(3)] None show ?thesis
      by (cases "pr_p_id row = p_id p") simp_all
  next
    case (Some c)
    show ?thesis
    proof (cases "p_id c \<noteq> pr_p_id row")
      case True
      with Some Cons.prems have l: "patients_loop rows (ps @ [c]) (Some (append_patient_metadata row (new_patient row))) = (ps', cur')"
        and s: "sorted ((case Some (append_patient_metadata row (new_patient row)) of None \<Rightarrow> [] | Some c \<Rightarrow> [p_id c]) @ map pr_p_id rows)"
        by simp_all
      from True Some Cons.prems(2) have absent: "p_id c \<notin> set (map pr_p_id (row # rows))"
        by auto
      have "\<forall>r\<in>set (row # rows). pr_p_id r \<noteq> p_id c"
      proof
        fix r
        assume "r \<in> set (row # rows)"
        then have "pr_p_id r \<in> set (map pr_p_id (row # rows))"
          by (simp only: set_map) (rule imageI)
        with absent show "pr_p_id r \<noteq> p_id c" by metis
      qed
      then have none: "filter (\<lambda>r. pr_p_id r = p_id c) (row # rows) = []"
        by (simp only: filter_empty_conv)
      from Cons.IH [OF l s Cons.prems(3)]
      consider "p \<in> set ps" | "p = c" |
         "p_id p \<in> set (map pr_p_id (row # rows))" "p_metadata p =
         (if pr_p_id row = p_id p then patient_row_entries row else []) @
         concat (map patient_row_entries (filter (\<lambda>row. pr_p_id row = p_id p) rows))"
        by auto
      then show ?thesis
      proof cases
        case 1
        then show ?thesis by simp
      next
        case 2
        with none Some show ?thesis by simp
      next
        case 3
        with absent have "p_id c \<noteq> p_id p" by metis
        with 3 Some show ?thesis
          by (cases "pr_p_id row = p_id p") simp_all
      qed
    next
      case False
      with Some Cons.prems have l: "patients_loop rows ps (Some (append_patient_metadata row c)) = (ps', cur')"
        and s: "sorted ((case Some (append_patient_metadata row c) of None \<Rightarrow> [] | Some c \<Rightarrow> [p_id c]) @ map pr_p_id rows)"
        by simp_all
      from Cons.IH [OF l s Cons.prems(3)] Some False show ?thesis
        by (cases "pr_p_id row = p_id p") auto
    qed
  qed
qed

lemma get_patients_metadata_patients_metadata:
  assumes "sorted (map pr_p_id rows)" and "p \<in> set (get_patients_metadata_patients rows)"
  shows "p_metadata p = concat (map patient_row_entries (filter (\<lambda>row. pr_p_id row = p_id p) rows))"
proof -
  obtain ps' cur' where l: "patients_loop rows [] None = (ps', cur')"
    by (cases "patients_loop rows [] None")
  from assms(2) have "p \<in> set ps' \<union> set_option cur'"
    by (cases cur') (simp_all add: get_patients_metadata_patients_def l)
  from patients_loop_metadata [OF l _ this] assms(1) show ?thesis by simp
qed

lemma patients_loop_append:
  "patients_loop (xs @ ys) ps cur =
   (case patients_loop xs ps cur of (ps1, cur1) \<Rightarrow> patients_loop ys ps1 cur1)"
  by (induction xs arbitrary: ps cur) (auto split: option.splits)

lemma patients_loop_other_ids:
  "patients_loop rows ps cur = (ps', cur') \<Longrightarrow>
   \<forall>row\<in>set rows. pr_p_id row \<noteq> i \<Longrightarrow>
   filter (\<lambda>p. p_id p = i) (ps' @ (case cur' of None \<Rightarrow> [] | Some c \<Rightarrow> [c])) =
   filter (\<lambda>p. p_id p = i) (ps @ (case cur of None \<Rightarrow> [] | Some c \<Rightarrow> [c]))"
proof (induction rows arbitrary: ps cur)
  case Nil
  then show ?case by auto
next
  case (Cons row rows)
  then show ?case
    by (cases cur) (auto split: if_splits)
qed

subsection \<open>The two sample folds\<close>

lemma sp_id_append_metadata [simp]:
  "sp_id (append_metadata row c) = sp_id c"
  by (simp add: append_metadata_def split: option.splits)

lemma sp_id_new_sample_with_patient [simp]: "sp_id (new_sample_with_patient row) = spr_sample_id row"
  by (simp add: new_sample_with_patient_def)

lemma sample_patient_row_entries_eq:
  "sample_patient_row_entries row =
   (case spr_metadata_id row of
      None \<Rightarrow> []
    | Some i \<Rightarrow>
        if i = 0 then []
        else [\<lparr>sm_id = i, sm_sample_id = spr_sample_id row,
               sm_key = spr_key row, sm_value = spr_value row\<rparr>])"
  by (simp add: sample_patient_row_entries_def append_metadata_def new_sample_with_patient_def
      split: option.splits)

lemma sp_metadata_append_metadata [simp]:
  "sp_metadata (append_metadata row c) = sp_metadata c @ sample_patient_row_entries row"
  by (simp add: sample_patient_row_entries_def append_metadata_def new_sample_with_patient_def
      split: option.splits)

lemma samples_per_patient_loop_concat:
  "samples_per_patient_loop rows ps cur = (ps', cur') \<Longrightarrow>
   concat (map sp_metadata ps') @ (case cur' of None \<Rightarrow> [] | Some c \<Rightarrow> sp_metadata c) =
   concat (map sp_metadata ps) @ (case cur of None \<Rightarrow> [] | Some c \<Rightarrow> sp_metadata c) @
   concat (map sample_patient_row_entries rows)"
proof (induction rows arbitrary: ps cur)
  case Nil
  then show ?case by (auto split: option.splits)
next
  case (Cons row rows)
  then show ?case
    by (cases cur) (auto simp: new_sample_with_patient_def split: if_splits)
qed

lemma samples_per_patient_loop_metadata:
  "samples_per_patient_loop rows ps cur = (ps', cur') \<Longrightarrow>
   sorted ((case cur of None \<Rightarrow> [] | Some c \<Rightarrow> [sp_id c]) @ map spr_sample_id rows) \<Longrightarrow>
   p \<in> set ps' \<union> set_option cur' \<Longrightarrow>
   p \<in> set ps \<or>
   sp_id p \<in> set ((case cur of None \<Rightarrow> [] | Some c \<Rightarrow> [sp_id c]) @ map spr_sample_id rows) \<and>
   sp_metadata p =
     (case cur of None \<Rightarrow> [] | Some c \<Rightarrow> if sp_id c = sp_id p then sp_metadata c else []) @
     concat (map sample_patient_row_entries (filter (\<lambda>row. spr_sample_id row = sp_id p) rows))"
proof (induction rows arbitrary: ps cur)
  case Nil
  then show ?case by (auto split: option.splits)
next
  case (Cons row rows)
  have fresh [simp]: "sp_metadata (new_sample_with_patient row) = []"
    by (simp add: new_sample_with_patient_def)
  show ?case
  proof (cases cur)
    case None
    with Cons.prems have l: "samples_per_patient_loop rows ps (Some (append_metadata row (new_sample_with_patient row))) = (ps', cur')"
      and s: "sorted ((case Some (append_metadata row (new_sample_with_patient row)) of None \<Rightarrow> [] | Some c \<Rightarrow> [sp_id c]) @ map spr_sample_id rows)"
      by simp_all
    from Cons.IH [OF l s Cons.prems(3)] None show ?thesis
      by (cases "spr_sample_id row = sp_id p") simp_all
  next
    case (Some c)
    show ?thesis
    proof (cases "sp_id c \<noteq> spr_sample_id row")
      case True
      with Some Cons.prems have l: "samples_per_patient_loop rows (ps @ [c]) (Some (append_metadata row (new_sample_with_patient row))) = (ps', cur')"
        and s: "sorted ((case Some (append_metadata row (new_sample_with_patient row)) of None \<Rightarrow> [] | Some c \<Rightarrow> [sp_id c]) @ map spr_sample_id rows)"
        by simp_all
      from True Some Cons.prems(2) have absent: "sp_id c \<notin> set (map spr_sample_id (row # rows))"
        by auto
      have "\<forall>r\<in>set (row # rows). spr_sample_id r \<noteq> sp_id c"
      proof
        fix r
        assume "r \<in> set (row # rows)"
        then have "spr_sample_id r \<in> set (map spr_sample_id (row # rows))"
          by (simp only: set_map) (rule imageI)
        with absent show "spr_sample_id r \<noteq> sp_id c" by metis
      qed
      then have none: "filter (\<lambda>r. spr_sample_id r = sp_id c) (row # rows) = []"
        by (simp only: filter_empty_conv)
      from Cons.IH [OF l s Cons.prems(3)]
      consider "p \<in> set ps" | "p = c" |
         "sp_id p \<in> set (map spr_sample_id (row # rows))" "sp_metadata p =
         (if spr_sample_id row = sp_id p then sample_patient_row_entries row else []) @
         concat (map sample_patient_row_entries (filter (\<lambda>row. spr_sample_id row = sp_id p) rows))"
        by auto
      then show ?thesis
      proof cases
        case 1
        then show ?thesis by simp
      next
        case 2
        with none Some show ?thesis by simp
      next
        case 3
        with absent have "sp_id c \<noteq> sp_id p" by metis
        with 3 Some show ?thesis
          by (cases "spr_sample_id row = sp_id p") simp_all
      qed
    next
      case False
      with Some Cons.prems have l: "samples_per_patient_loop rows ps (Some (append_metadata row c)) = (ps', cur')"
        and s: "sorted ((case Some (append_metadata row c) of None \<Rightarrow> [] | Some c \<Rightarrow> [sp_id c]) @ map spr_sample_id rows)"
        by simp_all
      from Cons.IH [OF l s Cons.prems(3)] Some False show ?thesis
        by (cases "spr_sample_id row = sp_id p") auto
    qed
  qed
qed

lemma get_samples_per_patient_samples_metadata:
  assumes "sorted (map spr_sample_id rows)" and "p \<in> set (get_samples_per_patient_samples rows)"
  shows "sp_metadata p = concat (map sample_patient_row_entries (filter (\<lambda>row. spr_sample_id row = sp_id p) rows))"
proof -
  obtain ps' cur' where l: "samples_per_patient_loop rows [] None = (ps', cur')"
    by (cases "samples_per_patient_loop rows [] None")
  from assms(2) have "p \<in> set ps' \<union> set_option cur'"
    by (cases cur') (simp_all add: get_samples_per_patient_samples_def l)
  from samples_per_patient_loop_metadata [OF l _ this] assms(1) show ?thesis by simp
qed


lemma s_id_append_sample_metadata [simp]:
  "s_id (append_sample_metadata row c) = s_id c"
  by (simp add: append_sample_metadata_def split: option.splits)

lemma s_id_new_sample [simp]: "s_id (new_sample row) = sr_s_id row"
  by (simp add: new_sample_def)

lemma sample_row_entries_eq:
  "sample_row_entries row =
   (case sr_sm_id row of
      None \<Rightarrow> []
    | Some i \<Rightarrow>
        if i = 0 then []
        else [\<lparr>sm_id = i, sm_sample_id = sr_s_id row,
               sm_key = sr_sm_key row, sm_value = sr_sm_value row\<rparr>])"
  by (simp add: sample_row_entries_def append_sample_metadata_def new_sample_def
      split: option.splits)

lemma s_metadata_append_sample_metadata [simp]:
  "s_metadata (append_sample_metadata row c) = s_metadata c @ sample_row_entries row"
  by (simp add: sample_row_entries_def append_sample_metadata_def new_sample_def
      split: option.splits)

lemma samples_loop_concat:
  "samples_loop rows ps cur = (ps', cur') \<Longrightarrow>
   concat (map s_metadata ps') @ (case cur' of None \<Rightarrow> [] | Some c \<Rightarrow> s_metadata c) =
   concat (map s_metadata ps) @ (case cur of None \<Rightarrow> [] | Some c \<Rightarrow> s_metadata c) @
   concat (map sample_row_entries rows)"
proof (induction rows arbitrary: ps cur)
  case Nil
  then show ?case by (auto split: option.splits)
next
  case (Cons row rows)
  then show ?case
    by (cases cur) (auto simp: new_sample_def split: if_splits)
qed


lemma patient_row_entries_fun: "patient_row_entries = (\<lambda>row. case pr_pm_id row of
                None \<Rightarrow> []
              | Some i \<Rightarrow>
                  if i = 0 then []
                  else [\<lparr>pm_id = i, pm_patient_id = pr_p_id row,
                         pm_key = pr_pm_key row, pm_value = pr_pm_value row\<rparr>])"
  by (rule ext) (rule patient_row_entries_eq)

lemma sample_row_entries_fun: "sample_row_entries = (\<lambda>row. case sr_sm_id row of
                None \<Rightarrow> []
              | Some i \<Rightarrow>
                  if i = 0 then []
                  else [\<lparr>sm_id = i, sm_sample_id = sr_s_id row,
                         sm_key = sr_sm_key row, sm_value = sr_sm_value row\<rparr>])"
  by (rule ext) (rule sample_row_entries_eq)

lemma sample_patient_row_entries_fun: "sample_patient_row_entries = (\<lambda>row. case spr_metadata_id row of
                None \<Rightarrow> []
              | Some i \<Rightarrow>
                  if i = 0 then []
                  else [\<lparr>sm_id = i, sm_sample_id = spr_sample_id row,
                         sm_key = spr_key row, sm_value = spr_value row\<rparr>])"
  by (rule ext) (rule sample_patient_row_entries_eq)

lemma get_patients_metadata_patients_concat:
  "concat (map p_metadata (get_patients_metadata_patients rows)) =
   concat (map patient_row_entries rows)"
proof -
  obtain ps' cur' where l: "patients_loop rows [] None = (ps', cur')"
    by (cases "patients_loop rows [] None")
  from patients_loop_concat [OF l] show ?thesis
    by (cases cur') (simp_all add: get_patients_metadata_patients_def l)
qed

lemma get_patients_metadata_samples_concat:
  "concat (map s_metadata (get_patients_metadata_samples rows)) =
   concat (map sample_row_entries rows)"
proof -
  obtain ps' cur' where l: "samples_loop rows [] None = (ps', cur')"
    by (cases "samples_loop rows [] None")
  from samples_loop_concat [OF l] show ?thesis
    by (cases cur') (simp_all add: get_patients_metadata_samples_def l)
qed

lemma get_samples_per_patient_samples_concat:
  "concat (map sp_metadata (get_samples_per_patient_samples rows)) =
   concat (map sample_patient_row_entries rows)"
proof -
  obtain ps' cur' where l: "samples_per_patient_loop rows [] None = (ps', cur')"
    by (cases "samples_per_patient_loop rows [] None")
  from samples_per_patient_loop_concat [OF l] show ?thesis
    by (cases cur') (simp_all add: get_samples_per_patient_samples_def l)
qed

subsection \<open>The validator of \<open>file_type\<close>\<close>

lemma validate_file_type_message:
  "(v \<notin> {''raw'', ''processed'', ''summarised''} \<longrightarrow>
      (\<exists>msg. validate_file_type v = Inl (ValueError msg) \<and>
         msg = ''file_type must be one of ['' @ [CHR 0x27] @ ''raw'' @ [CHR 0x27] @ '', ''
                 @ [CHR 0x27] @ ''processed'' @ [CHR 0x27] @ '', ''
                 @ [CHR 0x27] @ ''summarised'' @ [CHR 0x27] @ ''], got ''
                 @ [CHR 0x27] @ v @ [CHR 0x27] \<and>
         sublist v msg \<and>
         sublist ''raw'' msg \<and> sublist ''processed'' msg \<and> sublist ''summarised'' msg)) \<and>
   (v \<in> {''raw'', ''processed'', ''summarised''} \<longrightarrow> validate_file_type v = Inr v)"
proof -
  let ?m = "''file_type must be one of ['' @ [CHR 0x27] @ ''raw'' @ [CHR 0x27] @ '', ''
                 @ [CHR 0x27] @ ''processed'' @ [CHR 0x27] @ '', ''
                 @ [CHR 0x27] @ ''summarised'' @ [CHR 0x27] @ ''], got ''
                 @ [CHR 0x27] @ v @ [CHR 0x27]"
  have eq: "''file_type must be one of '' @ str_list allowed @ '', got '' @ [CHR 0x27] @ v @ [CHR 0x27] = ?m"
    by (simp add: str_list_def allowed_def repr_str_def)
  have s0: "sublist v ?m"
    unfolding sublist_def by (rule exI [of _ "''file_type must be one of ['' @ [CHR 0x27] @ ''raw'' @ [CHR 0x27] @ '', ''
                 @ [CHR 0x27] @ ''processed'' @ [CHR 0x27] @ '', ''
                 @ [CHR 0x27] @ ''summarised'' @ [CHR 0x27] @ ''], got ''
                 @ [CHR 0x27]"], rule exI [of _ "[CHR 0x27]"]) simp
  have s1: "sublist ''raw'' ?m"
    unfolding sublist_def by (rule exI [of _ "''file_type must be one of ['' @ [CHR 0x27]"],
      rule exI [of _ "[CHR 0x27] @ '', ''
                 @ [CHR 0x27] @ ''processed'' @ [CHR 0x27] @ '', ''
                 @ [CHR 0x27] @ ''summarised'' @ [CHR 0x27] @ ''], got ''
                 @ [CHR 0x27] @ v @ [CHR 0x27]"]) simp
  have s2: "sublist ''processed'' ?m"
    unfolding sublist_def by (rule exI [of _ "''file_type must be one of ['' @ [CHR 0x27] @ ''raw'' @ [CHR 0x27] @ '', ''
                 @ [CHR 0x27]"],
      rule exI [of _ "[CHR 0x27] @ '', ''
                 @ [CHR 0x27] @ ''summarised'' @ [CHR 0x27] @ ''], got ''
                 @ [CHR 0x27] @ v @ [CHR 0x27]"]) simp
  have s3: "sublist ''summarised'' ?m"
    unfolding sublist_def by (rule exI [of _ "''file_type must be one of ['' @ [CHR 0x27] @ ''raw'' @ [CHR 0x27] @ '', ''
                 @ [CHR 0x27] @ ''processed'' @ [CHR 0x27] @ '', ''
                 @ [CHR 0x27]"],
      rule exI [of _ "[CHR 0x27] @ ''], got ''
                 @ [CHR 0x27] @ v @ [CHR 0x27]"]) simp
  have a: "set allowed = {''raw'', ''processed'', ''summarised''}"
    by (simp add: allowed_def)
  show ?thesis
  proof (intro conjI impI)
    assume "v \<notin> {''raw'', ''processed'', ''summarised''}"
    then have "v \<notin> set allowed"
      by (simp add: a)
    then have "validate_file_type v = Inl (ValueError (''file_type must be one of '' @ str_list allowed @ '', got '' @ [CHR 0x27] @ v @ [CHR 0x27]))"
      unfolding validate_file_type_def by (rule if_P)
    then have "validate_file_type v = Inl (ValueError ?m)"
      by (simp only: eq)
    with s0 s1 s2 s3 show "\<exists>msg. validate_file_type v = Inl (ValueError msg) \<and>
         msg = ?m \<and> sublist v msg \<and>
         sublist ''raw'' msg \<and> sublist ''processed'' msg \<and> sublist ''summarised'' msg"
      by blast
  next
    assume "v \<in> {''raw'', ''processed'', ''summarised''}"
    then have "\<not> v \<notin> set allowed"
      by (simp add: a)
    then show "validate_file_type v = Inr v"
      unfolding validate_file_type_def by (rule if_not_P)
  qed
qed

subsection \<open>The store and the metadata update\<close>

lemma interaction_ok:
  "\<forall>x\<in>set (take (Suc n) outcomes). x = None \<Longrightarrow>
   interaction outcomes = Inr (tl outcomes) \<and> (\<forall>x\<in>set (take n (tl outcomes)). x = None)"
  by (cases outcomes) auto

lemma raw_file_size_undeclared:
  "MetadataUpdate_getattr update ''raw_file_size'' = Inl (AttributeError ''raw_file_size'')"
  by (simp add: MetadataUpdate_getattr_def)

text \<open>
  The block of statements itself, run twice for one key on a table that has no row for
  it and with a store that does not fail, leaves one row for the key, with the second
  value, whatever the server chooses.
\<close>

lemma fetchone_of_single: "fetchone_of n [row] = Some row"
  by (simp add: fetchone_of_def)

lemma fetchone_of_none: "fetchone_of n [] = None"
  by (simp add: fetchone_of_def)

lemma update_or_insert_twice:
  assumes "filter (\<lambda>row. dm_key row = key \<and> dm_dataset_id row = dataset_id) table = []"
  shows "\<exists>table1 table2.
           update_or_insert sv key dataset_id v1 (table, []) = Inr (table1, []) \<and>
           update_or_insert sv key dataset_id v2 (table1, []) = Inr (table2, []) \<and>
           map dm_value
             (filter (\<lambda>row. dm_key row = key \<and> dm_dataset_id row = dataset_id) table2) = [v2]"
proof -
  let ?P = "\<lambda>row. dm_key row = key \<and> dm_dataset_id row = dataset_id"
  let ?new = "\<lparr>dm_id = sv_nextval sv table, dm_dataset_id = dataset_id, dm_key = key, dm_value = v1\<rparr>"
  let ?f = "\<lambda>row. if dm_id row = dm_id ?new then row\<lparr>dm_value := v2\<rparr> else row"
  have 1: "update_or_insert sv key dataset_id v1 (table, []) = Inr (table @ [?new], [])"
    using assms by (simp add: update_or_insert_def fetchone_of_none)
  have found: "filter ?P (table @ [?new]) = [?new]"
    using assms by simp
  have 2: "update_or_insert sv key dataset_id v2 (table @ [?new], []) =
      Inr (map ?f (table @ [?new]), [])"
    unfolding update_or_insert_def
    by (simp only: found Let_def fetchone_of_single prod.case interaction.simps sum.case
        option.case)
  have "filter ?P (map ?f (table @ [?new])) = map ?f (filter ?P (table @ [?new]))"
    by (simp add: filter_map comp_def cong: filter_cong)
  then have 3: "map dm_value (filter ?P (map ?f (table @ [?new]))) = [v2]"
    by (simp only: found) simp
  show ?thesis
    by (intro exI [of _ "table @ [?new]"] exI [of _ "map ?f (table @ [?new])"] conjI 1 2 3)
qed

section \<open>The claims\<close>

text \<open>
  C1. Tree assembler (\<^verbatim>\<open>get_patients_metadata\<close>, lines 134-161): for rows sorted by
  parent id, the parents of the output carry the parent ids of the rows in first-seen
  order, no id twice, and there are as many parents as there are distinct parent ids in
  the rows.
\<close>

theorem get_patients_metadata_one_parent_per_id:
  assumes "sorted (map pr_p_id rows)"
  shows "map p_id (get_patients_metadata_patients rows) = first_seen (map pr_p_id rows) \<and>
         distinct (map p_id (get_patients_metadata_patients rows)) \<and>
         length (get_patients_metadata_patients rows) = card (pr_p_id ` set rows)"
proof -
  have ids: "map p_id (get_patients_metadata_patients rows) = first_seen (map pr_p_id rows)"
    using assms by (simp add: get_patients_metadata_patients_ids remdups_adj_sorted_first_seen)
  have "length (map p_id (get_patients_metadata_patients rows)) = card (set (map pr_p_id rows))"
    unfolding ids by (rule length_first_seen)
  then have "length (get_patients_metadata_patients rows) = card (pr_p_id ` set rows)"
    by simp
  then show ?thesis
    by (simp add: ids distinct_first_seen)
qed

theorem get_patients_metadata_one_parent_per_id_witness:
  "map p_id (get_patients_metadata_patients
     [\<lparr>pr_p_id = 1, pr_p_project_id = 7, pr_p_ext_patient_id = ''A'', pr_p_ext_patient_url = ''u1'',
       pr_p_public_patient_id = None, pr_pm_id = Some 101, pr_pm_key = Some ''k1'', pr_pm_value = Some ''v1''\<rparr>,
      \<lparr>pr_p_id = 1, pr_p_project_id = 7, pr_p_ext_patient_id = ''A'', pr_p_ext_patient_url = ''u1'',
       pr_p_public_patient_id = None, pr_pm_id = Some 102, pr_pm_key = Some ''k2'', pr_pm_value = Some ''v2''\<rparr>,
      \<lparr>pr_p_id = 4, pr_p_project_id = 7, pr_p_ext_patient_id = ''B'', pr_p_ext_patient_url = ''u2'',
       pr_p_public_patient_id = Some ''pub'', pr_pm_id = None, pr_pm_key = None, pr_pm_value = None\<rparr>]) = [1, 4]"
  using get_patients_metadata_one_parent_per_id [of
     "[\<lparr>pr_p_id = 1, pr_p_project_id = 7, pr_p_ext_patient_id = ''A'', pr_p_ext_patient_url = ''u1'',
       pr_p_public_patient_id = None, pr_pm_id = Some 101, pr_pm_key = Some ''k1'', pr_pm_value = Some ''v1''\<rparr>,
      \<lparr>pr_p_id = 1, pr_p_project_id = 7, pr_p_ext_patient_id = ''A'', pr_p_ext_patient_url = ''u1'',
       pr_p_public_patient_id = None, pr_pm_id = Some 102, pr_pm_key = Some ''k2'', pr_pm_value = Some ''v2''\<rparr>,
      \<lparr>pr_p_id = 4, pr_p_project_id = 7, pr_p_ext_patient_id = ''B'', pr_p_ext_patient_url = ''u2'',
       pr_p_public_patient_id = Some ''pub'', pr_pm_id = None, pr_pm_key = None, pr_pm_value = None\<rparr>]"]
  by simp

text \<open>
  C6. End-to-end scenario: the four rows of the specification, with the parent name in
  the column \<^verbatim>\<open>ext_patient_id\<close> and any values in the parent columns the scenario does not
  give, assemble to exactly two parents; parent 1 "A" has the two metadata entries of its
  first two rows and parent 2 "B" has one; the row with a null child adds neither an
  entry nor a parent.
\<close>

theorem get_patients_metadata_end_to_end:
  "get_patients_metadata_patients
     [\<lparr>pr_p_id = 1, pr_p_project_id = pj1, pr_p_ext_patient_id = ''A'', pr_p_ext_patient_url = url1,
       pr_p_public_patient_id = pub1, pr_pm_id = Some 101, pr_pm_key = Some ''k1'', pr_pm_value = Some ''v1''\<rparr>,
      \<lparr>pr_p_id = 1, pr_p_project_id = pj1, pr_p_ext_patient_id = ''A'', pr_p_ext_patient_url = url1,
       pr_p_public_patient_id = pub1, pr_pm_id = Some 101, pr_pm_key = Some ''k2'', pr_pm_value = Some ''v2''\<rparr>,
      \<lparr>pr_p_id = 1, pr_p_project_id = pj1, pr_p_ext_patient_id = ''A'', pr_p_ext_patient_url = url1,
       pr_p_public_patient_id = pub1, pr_pm_id = None, pr_pm_key = None, pr_pm_value = None\<rparr>,
      \<lparr>pr_p_id = 2, pr_p_project_id = pj2, pr_p_ext_patient_id = ''B'', pr_p_ext_patient_url = url2,
       pr_p_public_patient_id = pub2, pr_pm_id = Some 202, pr_pm_key = Some ''k1'', pr_pm_value = Some ''v1''\<rparr>]
   = [\<lparr>p_id = 1, p_project_id = pj1, p_ext_patient_id = ''A'', p_ext_patient_url = url1,
       p_public_patient_id = pub1, p_samples = [],
       p_metadata =
         [\<lparr>pm_id = 101, pm_patient_id = 1, pm_key = Some ''k1'', pm_value = Some ''v1''\<rparr>,
          \<lparr>pm_id = 101, pm_patient_id = 1, pm_key = Some ''k2'', pm_value = Some ''v2''\<rparr>]\<rparr>,
      \<lparr>p_id = 2, p_project_id = pj2, p_ext_patient_id = ''B'', p_ext_patient_url = url2,
       p_public_patient_id = pub2, p_samples = [],
       p_metadata =
         [\<lparr>pm_id = 202, pm_patient_id = 2, pm_key = Some ''k1'', pm_value = Some ''v1''\<rparr>]\<rparr>]"
  by (simp add: get_patients_metadata_patients_def new_patient_def append_patient_metadata_def)

text \<open>
  C7. Tree assembler: a parent id whose only row has a null child id is in the output
  exactly once, as a parent with an empty metadata list.
\<close>

theorem get_patients_metadata_childless_parent:
  assumes only: "filter (\<lambda>r. pr_p_id r = i) rows = [row]"
    and null: "pr_pm_id row = None"
  shows "map p_metadata (filter (\<lambda>p. p_id p = i) (get_patients_metadata_patients rows)) = [[]]"
proof -
  from only have "\<exists>us vs. rows = us @ row # vs \<and> (\<forall>u\<in>set us. \<not> pr_p_id u = i) \<and>
      pr_p_id row = i \<and> [] = filter (\<lambda>r. pr_p_id r = i) vs"
    by (simp only: filter_eq_Cons_iff)
  then obtain pre post where rows: "rows = pre @ row # post"
    and pre: "\<forall>r\<in>set pre. pr_p_id r \<noteq> i" and i: "pr_p_id row = i"
    and nopost: "[] = filter (\<lambda>r. pr_p_id r = i) post"
    by (elim exE conjE)
  from nopost [symmetric] have post: "\<forall>r\<in>set post. pr_p_id r \<noteq> i"
    by (simp only: filter_empty_conv)
  let ?P = "\<lambda>p. p_id p = i"
  let ?new = "append_patient_metadata row (new_patient row)"
  obtain ps1 cur1 where l1: "patients_loop pre [] None = (ps1, cur1)"
    by (cases "patients_loop pre [] None")
  obtain ps2 cur2 where l2: "patients_loop [row] ps1 cur1 = (ps2, cur2)"
    by (cases "patients_loop [row] ps1 cur1")
  obtain ps3 cur3 where l3: "patients_loop post ps2 cur2 = (ps3, cur3)"
    by (cases "patients_loop post ps2 cur2")
  from patients_loop_other_ids [OF l1 pre]
  have f1: "filter ?P (ps1 @ (case cur1 of None \<Rightarrow> [] | Some c \<Rightarrow> [c])) = []"
    by simp
  have f2: "filter ?P (ps2 @ (case cur2 of None \<Rightarrow> [] | Some c \<Rightarrow> [c])) = [?new]"
  proof (cases cur1)
    case None
    with l2 have "ps2 = ps1" "cur2 = Some ?new" by simp_all
    with f1 None i show ?thesis by simp
  next
    case (Some c)
    with f1 have ne: "p_id c \<noteq> i" and e: "filter ?P ps1 = []"
      by (simp_all split: if_splits)
    from ne i have "p_id c \<noteq> pr_p_id row" by simp
    with Some l2 have "ps2 = ps1 @ [c]" "cur2 = Some ?new" by simp_all
    with ne e i show ?thesis by simp
  qed
  from patients_loop_other_ids [OF l3 post] f2
  have f3: "filter ?P (ps3 @ (case cur3 of None \<Rightarrow> [] | Some c \<Rightarrow> [c])) = [?new]"
    by simp
  have "patients_loop ([row] @ post) ps1 cur1 = (ps3, cur3)"
    by (simp only: patients_loop_append l2 l3 prod.case)
  then have "patients_loop (pre @ [row] @ post) [] None = (ps3, cur3)"
    by (simp only: patients_loop_append [of pre] l1 prod.case)
  then have "patients_loop rows [] None = (ps3, cur3)"
    by (simp add: rows)
  then have "get_patients_metadata_patients rows = ps3 @ (case cur3 of None \<Rightarrow> [] | Some c \<Rightarrow> [c])"
    by (cases cur3) (simp_all add: get_patients_metadata_patients_def)
  with f3 null show ?thesis
    by (simp add: patient_row_entries_eq new_patient_def)
qed

theorem get_patients_metadata_childless_parent_witness:
  "map p_metadata (filter (\<lambda>p. p_id p = 4) (get_patients_metadata_patients
     [\<lparr>pr_p_id = 1, pr_p_project_id = 7, pr_p_ext_patient_id = ''A'', pr_p_ext_patient_url = ''u1'',
       pr_p_public_patient_id = None, pr_pm_id = Some 101, pr_pm_key = Some ''k1'', pr_pm_value = Some ''v1''\<rparr>,
      \<lparr>pr_p_id = 4, pr_p_project_id = 7, pr_p_ext_patient_id = ''B'', pr_p_ext_patient_url = ''u2'',
       pr_p_public_patient_id = Some ''pub'', pr_pm_id = None, pr_pm_key = None, pr_pm_value = None\<rparr>])) = [[]]"
  using get_patients_metadata_childless_parent [of 4
     "[\<lparr>pr_p_id = 1, pr_p_project_id = 7, pr_p_ext_patient_id = ''A'', pr_p_ext_patient_url = ''u1'',
       pr_p_public_patient_id = None, pr_pm_id = Some 101, pr_pm_key = Some ''k1'', pr_pm_value = Some ''v1''\<rparr>,
      \<lparr>pr_p_id = 4, pr_p_project_id = 7, pr_p_ext_patient_id = ''B'', pr_p_ext_patient_url = ''u2'',
       pr_p_public_patient_id = Some ''pub'', pr_pm_id = None, pr_pm_key = None, pr_pm_value = None\<rparr>]"
     "\<lparr>pr_p_id = 4, pr_p_project_id = 7, pr_p_ext_patient_id = ''B'', pr_p_ext_patient_url = ''u2'',
       pr_p_public_patient_id = Some ''pub'', pr_pm_id = None, pr_pm_key = None, pr_pm_value = None\<rparr>"]
  by simp

text \<open>
  C8. A create-file request whose \<^verbatim>\<open>file_type\<close> is outside the allowed set is rejected
  before any store interaction: \<^verbatim>\<open>FileCreate.validate_file_type\<close> raises \<^verbatim>\<open>ValueError\<close>
  whose message names the allowed set and the value, and the request ends with that
  error and the store as it was, whatever the body of the route would do with the store
  (the body never runs). For a value inside the set the validator returns it unchanged
  and the body of the route runs on the object that holds it.
\<close>

theorem create_file_rejected_before_store:
  "(v \<notin> {''raw'', ''processed'', ''summarised''} \<longrightarrow>
      (\<exists>msg. validate_file_type v = Inl (ValueError msg) \<and>
         msg = ''file_type must be one of ['' @ [CHR 0x27] @ ''raw'' @ [CHR 0x27] @ '', ''
                 @ [CHR 0x27] @ ''processed'' @ [CHR 0x27] @ '', ''
                 @ [CHR 0x27] @ ''summarised'' @ [CHR 0x27] @ ''], got ''
                 @ [CHR 0x27] @ v @ [CHR 0x27] \<and>
         sublist v msg \<and>
         sublist ''raw'' msg \<and> sublist ''processed'' msg \<and> sublist ''summarised'' msg \<and>
         (\<forall>route_body dataset_id path metadata store.
            create_file_request route_body dataset_id path v metadata store =
              (Inl (ValueError msg), store)))) \<and>
   (v \<in> {''raw'', ''processed'', ''summarised''} \<longrightarrow>
      validate_file_type v = Inr v \<and>
      (\<forall>route_body dataset_id path metadata store.
         create_file_request route_body dataset_id path v metadata store =
           route_body \<lparr>fc_dataset_id = dataset_id, fc_path = path, fc_file_type = v,
                        fc_metadata = metadata\<rparr> store))"
proof (intro conjI impI)
  assume out: "v \<notin> {''raw'', ''processed'', ''summarised''}"
  with validate_file_type_message [of v]
  obtain msg where v: "validate_file_type v = Inl (ValueError msg)"
    and m: "msg = ''file_type must be one of ['' @ [CHR 0x27] @ ''raw'' @ [CHR 0x27] @ '', ''
                 @ [CHR 0x27] @ ''processed'' @ [CHR 0x27] @ '', ''
                 @ [CHR 0x27] @ ''summarised'' @ [CHR 0x27] @ ''], got ''
                 @ [CHR 0x27] @ v @ [CHR 0x27]"
    and s: "sublist v msg" "sublist ''raw'' msg" "sublist ''processed'' msg"
      "sublist ''summarised'' msg"
    by blast
  have "create_file_request route_body dataset_id path v metadata store =
      (Inl (ValueError msg), store)" for route_body :: "FileCreate \<Rightarrow> 'a \<Rightarrow> (exn + 'b) \<times> 'a"
    and dataset_id path metadata store
    by (simp add: create_file_request_def FileCreate_init_def v)
  with v m s show "\<exists>msg. validate_file_type v = Inl (ValueError msg) \<and>
         msg = ''file_type must be one of ['' @ [CHR 0x27] @ ''raw'' @ [CHR 0x27] @ '', ''
                 @ [CHR 0x27] @ ''processed'' @ [CHR 0x27] @ '', ''
                 @ [CHR 0x27] @ ''summarised'' @ [CHR 0x27] @ ''], got ''
                 @ [CHR 0x27] @ v @ [CHR 0x27] \<and>
         sublist v msg \<and>
         sublist ''raw'' msg \<and> sublist ''processed'' msg \<and> sublist ''summarised'' msg \<and>
         (\<forall>(route_body :: FileCreate \<Rightarrow> 'a \<Rightarrow> (exn + 'b) \<times> 'a) dataset_id path metadata store.
            create_file_request route_body dataset_id path v metadata store =
              (Inl (ValueError msg), store))"
    by blast
next
  assume "v \<in> {''raw'', ''processed'', ''summarised''}"
  with validate_file_type_message [of v] have v: "validate_file_type v = Inr v"
    by blast
  then show "validate_file_type v = Inr v" .
  show "\<forall>(route_body :: FileCreate \<Rightarrow> 'c \<Rightarrow> (exn + 'd) \<times> 'c) dataset_id path metadata store.
         create_file_request route_body dataset_id path v metadata store =
           route_body \<lparr>fc_dataset_id = dataset_id, fc_path = path, fc_file_type = v,
                        fc_metadata = metadata\<rparr> store"
    by (simp add: create_file_request_def FileCreate_init_def v)
qed

theorem create_file_rejected_before_store_witness:
  "create_file_request (\<lambda>file paths. (Inr (length paths), paths @ [fc_path file]))
     5 ''reads.zip'' ''zip'' None [''old.fastq''] =
     (Inl (ValueError (''file_type must be one of ['' @ [CHR 0x27] @ ''raw'' @ [CHR 0x27] @ '', ''
                 @ [CHR 0x27] @ ''processed'' @ [CHR 0x27] @ '', ''
                 @ [CHR 0x27] @ ''summarised'' @ [CHR 0x27] @ ''], got ''
                 @ [CHR 0x27] @ ''zip'' @ [CHR 0x27])), [''old.fastq'']) \<and>
   create_file_request (\<lambda>file paths. (Inr (length paths), paths @ [fc_path file]))
     5 ''reads.fastq'' ''raw'' None [''old.fastq''] =
     (Inr 1, [''old.fastq'', ''reads.fastq''])"
proof -
  let ?body = "\<lambda>file paths. (Inr (length paths) :: exn + nat, paths @ [fc_path file])"
  have bad: "''zip'' \<notin> {''raw'', ''processed'', ''summarised''}" by simp
  have good: "''raw'' \<in> {''raw'', ''processed'', ''summarised''}" by simp
  from create_file_rejected_before_store [THEN conjunct1, THEN mp, OF bad]
  obtain msg where m: "msg = ''file_type must be one of ['' @ [CHR 0x27] @ ''raw'' @ [CHR 0x27] @ '', ''
                 @ [CHR 0x27] @ ''processed'' @ [CHR 0x27] @ '', ''
                 @ [CHR 0x27] @ ''summarised'' @ [CHR 0x27] @ ''], got ''
                 @ [CHR 0x27] @ ''zip'' @ [CHR 0x27]"
    and r: "\<forall>(route_body :: FileCreate \<Rightarrow> string list \<Rightarrow> (exn + nat) \<times> string list)
              dataset_id path metadata store.
              create_file_request route_body dataset_id path ''zip'' metadata store =
                (Inl (ValueError msg), store)"
    by (elim exE conjE) (rule that, assumption+)
  from r have 1: "create_file_request ?body 5 ''reads.zip'' ''zip'' None [''old.fastq''] =
      (Inl (ValueError msg), [''old.fastq''])"
    by (elim allE)
  from create_file_rejected_before_store [THEN conjunct2, THEN mp, OF good]
  have "\<forall>(route_body :: FileCreate \<Rightarrow> string list \<Rightarrow> (exn + nat) \<times> string list)
              dataset_id path metadata store.
         create_file_request route_body dataset_id path ''raw'' metadata store =
           route_body \<lparr>fc_dataset_id = dataset_id, fc_path = path, fc_file_type = ''raw'',
                        fc_metadata = metadata\<rparr> store"
    by (rule conjunct2)
  then have 2: "create_file_request ?body 5 ''reads.fastq'' ''raw'' None [''old.fastq''] =
      ?body \<lparr>fc_dataset_id = 5, fc_path = ''reads.fastq'', fc_file_type = ''raw'',
               fc_metadata = None\<rparr> [''old.fastq'']"
    by (elim allE)
  show ?thesis
    unfolding 1 2 m by simp
qed

text \<open>
  C5. The claim that a child id repeated in consecutive rows of one parent yields a single
  child entry fails: two rows of sample 1 that both carry metadata id 101 give the sample
  two entries with id 101.
\<close>

theorem get_samples_per_patient_repeated_child_id:
  "map (\<lambda>s. map sm_id (sp_metadata s)) (get_samples_per_patient_samples [\<lparr>spr_sample_id = 1, spr_patient_id = 3, spr_ext_sample_id = ''S1'', spr_ext_sample_url = ''u'',
        spr_metadata_id = Some 101, spr_key = Some ''k'', spr_value = Some ''v'',
        spr_pat_id = 3, spr_project_id = 7, spr_ext_pat_id = ''A'', spr_ext_pat_url = ''u1'',
        spr_public_pat_id = None\<rparr>, \<lparr>spr_sample_id = 1, spr_patient_id = 3, spr_ext_sample_id = ''S1'', spr_ext_sample_url = ''u'',
        spr_metadata_id = Some 101, spr_key = Some ''k'', spr_value = Some ''v'',
        spr_pat_id = 3, spr_project_id = 7, spr_ext_pat_id = ''A'', spr_ext_pat_url = ''u1'',
        spr_public_pat_id = None\<rparr>]) = [[101, 101]]"
  by (simp add: get_samples_per_patient_samples_def new_sample_with_patient_def append_metadata_def)

text \<open>
  C5, as the code has it: for rows sorted by parent id, the metadata list of every output
  parent is one entry for each row of that parent whose child id is neither null nor 0,
  in row order. Nothing compares a child id with the one of the row before, so rows that
  repeat a child id each add an entry. Stated for \<^verbatim>\<open>get_samples_per_patient\<close> and for the
  patient fold of \<^verbatim>\<open>get_patients_metadata\<close>.
\<close>

theorem assembler_entry_per_row:
  "(sorted (map spr_sample_id sp_rows) \<longrightarrow>
      (\<forall>s\<in>set (get_samples_per_patient_samples sp_rows).
         sp_metadata s =
           concat (map (\<lambda>row. case spr_metadata_id row of
                None \<Rightarrow> []
              | Some i \<Rightarrow>
                  if i = 0 then []
                  else [\<lparr>sm_id = i, sm_sample_id = spr_sample_id row,
                         sm_key = spr_key row, sm_value = spr_value row\<rparr>]) (filter (\<lambda>row. spr_sample_id row = sp_id s) sp_rows)))) \<and>
   (sorted (map pr_p_id rows) \<longrightarrow>
      (\<forall>p\<in>set (get_patients_metadata_patients rows).
         p_metadata p =
           concat (map (\<lambda>row. case pr_pm_id row of
                None \<Rightarrow> []
              | Some i \<Rightarrow>
                  if i = 0 then []
                  else [\<lparr>pm_id = i, pm_patient_id = pr_p_id row,
                         pm_key = pr_pm_key row, pm_value = pr_pm_value row\<rparr>]) (filter (\<lambda>row. pr_p_id row = p_id p) rows))))"
  using get_samples_per_patient_samples_metadata [of sp_rows]
    get_patients_metadata_patients_metadata [of rows]
  by (simp only: patient_row_entries_fun sample_patient_row_entries_fun) blast

theorem assembler_entry_per_row_witness:
  "map p_metadata (get_patients_metadata_patients [\<lparr>pr_p_id = 1, pr_p_project_id = 7, pr_p_ext_patient_id = ''A'', pr_p_ext_patient_url = ''u1'',
        pr_p_public_patient_id = None, pr_pm_id = Some 101, pr_pm_key = Some ''k1'', pr_pm_value = Some ''v1''\<rparr>, \<lparr>pr_p_id = 1, pr_p_project_id = 7, pr_p_ext_patient_id = ''A'', pr_p_ext_patient_url = ''u1'',
        pr_p_public_patient_id = None, pr_pm_id = Some 101, pr_pm_key = Some ''k1'', pr_pm_value = Some ''v1''\<rparr>]) =
     [[\<lparr>pm_id = 101, pm_patient_id = 1, pm_key = Some ''k1'', pm_value = Some ''v1''\<rparr>,
       \<lparr>pm_id = 101, pm_patient_id = 1, pm_key = Some ''k1'', pm_value = Some ''v1''\<rparr>]]"
proof -
  have s: "sorted (map pr_p_id [\<lparr>pr_p_id = 1, pr_p_project_id = 7, pr_p_ext_patient_id = ''A'', pr_p_ext_patient_url = ''u1'',
        pr_p_public_patient_id = None, pr_pm_id = Some 101, pr_pm_key = Some ''k1'', pr_pm_value = Some ''v1''\<rparr>, \<lparr>pr_p_id = 1, pr_p_project_id = 7, pr_p_ext_patient_id = ''A'', pr_p_ext_patient_url = ''u1'',
        pr_p_public_patient_id = None, pr_pm_id = Some 101, pr_pm_key = Some ''k1'', pr_pm_value = Some ''v1''\<rparr>])" by simp
  have out: "get_patients_metadata_patients [\<lparr>pr_p_id = 1, pr_p_project_id = 7, pr_p_ext_patient_id = ''A'', pr_p_ext_patient_url = ''u1'',
        pr_p_public_patient_id = None, pr_pm_id = Some 101, pr_pm_key = Some ''k1'', pr_pm_value = Some ''v1''\<rparr>, \<lparr>pr_p_id = 1, pr_p_project_id = 7, pr_p_ext_patient_id = ''A'', pr_p_ext_patient_url = ''u1'',
        pr_p_public_patient_id = None, pr_pm_id = Some 101, pr_pm_key = Some ''k1'', pr_pm_value = Some ''v1''\<rparr>] =
      [\<lparr>p_id = 1, p_project_id = 7, p_ext_patient_id = ''A'', p_ext_patient_url = ''u1'',
        p_public_patient_id = None, p_samples = [],
        p_metadata = p_metadata (hd (get_patients_metadata_patients [\<lparr>pr_p_id = 1, pr_p_project_id = 7, pr_p_ext_patient_id = ''A'', pr_p_ext_patient_url = ''u1'',
        pr_p_public_patient_id = None, pr_pm_id = Some 101, pr_pm_key = Some ''k1'', pr_pm_value = Some ''v1''\<rparr>, \<lparr>pr_p_id = 1, pr_p_project_id = 7, pr_p_ext_patient_id = ''A'', pr_p_ext_patient_url = ''u1'',
        pr_p_public_patient_id = None, pr_pm_id = Some 101, pr_pm_key = Some ''k1'', pr_pm_value = Some ''v1''\<rparr>]))\<rparr>]"
    by (simp add: get_patients_metadata_patients_def new_patient_def append_patient_metadata_def)
  then have "hd (get_patients_metadata_patients [\<lparr>pr_p_id = 1, pr_p_project_id = 7, pr_p_ext_patient_id = ''A'', pr_p_ext_patient_url = ''u1'',
        pr_p_public_patient_id = None, pr_pm_id = Some 101, pr_pm_key = Some ''k1'', pr_pm_value = Some ''v1''\<rparr>, \<lparr>pr_p_id = 1, pr_p_project_id = 7, pr_p_ext_patient_id = ''A'', pr_p_ext_patient_url = ''u1'',
        pr_p_public_patient_id = None, pr_pm_id = Some 101, pr_pm_key = Some ''k1'', pr_pm_value = Some ''v1''\<rparr>]) \<in> set (get_patients_metadata_patients [\<lparr>pr_p_id = 1, pr_p_project_id = 7, pr_p_ext_patient_id = ''A'', pr_p_ext_patient_url = ''u1'',
        pr_p_public_patient_id = None, pr_pm_id = Some 101, pr_pm_key = Some ''k1'', pr_pm_value = Some ''v1''\<rparr>, \<lparr>pr_p_id = 1, pr_p_project_id = 7, pr_p_ext_patient_id = ''A'', pr_p_ext_patient_url = ''u1'',
        pr_p_public_patient_id = None, pr_pm_id = Some 101, pr_pm_key = Some ''k1'', pr_pm_value = Some ''v1''\<rparr>])"
    by (metis list.set_intros(1) list.sel(1))
  with assembler_entry_per_row [of "[]" "[\<lparr>pr_p_id = 1, pr_p_project_id = 7, pr_p_ext_patient_id = ''A'', pr_p_ext_patient_url = ''u1'',
        pr_p_public_patient_id = None, pr_pm_id = Some 101, pr_pm_key = Some ''k1'', pr_pm_value = Some ''v1''\<rparr>, \<lparr>pr_p_id = 1, pr_p_project_id = 7, pr_p_ext_patient_id = ''A'', pr_p_ext_patient_url = ''u1'',
        pr_p_public_patient_id = None, pr_pm_id = Some 101, pr_pm_key = Some ''k1'', pr_pm_value = Some ''v1''\<rparr>]"] s
  have "p_metadata (hd (get_patients_metadata_patients [\<lparr>pr_p_id = 1, pr_p_project_id = 7, pr_p_ext_patient_id = ''A'', pr_p_ext_patient_url = ''u1'',
        pr_p_public_patient_id = None, pr_pm_id = Some 101, pr_pm_key = Some ''k1'', pr_pm_value = Some ''v1''\<rparr>, \<lparr>pr_p_id = 1, pr_p_project_id = 7, pr_p_ext_patient_id = ''A'', pr_p_ext_patient_url = ''u1'',
        pr_p_public_patient_id = None, pr_pm_id = Some 101, pr_pm_key = Some ''k1'', pr_pm_value = Some ''v1''\<rparr>])) =
      concat (map (\<lambda>row. case pr_pm_id row of
                None \<Rightarrow> []
              | Some i \<Rightarrow>
                  if i = 0 then []
                  else [\<lparr>pm_id = i, pm_patient_id = pr_p_id row,
                         pm_key = pr_pm_key row, pm_value = pr_pm_value row\<rparr>]) (filter (\<lambda>row. pr_p_id row = p_id (hd (get_patients_metadata_patients [\<lparr>pr_p_id = 1, pr_p_project_id = 7, pr_p_ext_patient_id = ''A'', pr_p_ext_patient_url = ''u1'',
        pr_p_public_patient_id = None, pr_pm_id = Some 101, pr_pm_key = Some ''k1'', pr_pm_value = Some ''v1''\<rparr>, \<lparr>pr_p_id = 1, pr_p_project_id = 7, pr_p_ext_patient_id = ''A'', pr_p_ext_patient_url = ''u1'',
        pr_p_public_patient_id = None, pr_pm_id = Some 101, pr_pm_key = Some ''k1'', pr_pm_value = Some ''v1''\<rparr>]))) [\<lparr>pr_p_id = 1, pr_p_project_id = 7, pr_p_ext_patient_id = ''A'', pr_p_ext_patient_url = ''u1'',
        pr_p_public_patient_id = None, pr_pm_id = Some 101, pr_pm_key = Some ''k1'', pr_pm_value = Some ''v1''\<rparr>, \<lparr>pr_p_id = 1, pr_p_project_id = 7, pr_p_ext_patient_id = ''A'', pr_p_ext_patient_url = ''u1'',
        pr_p_public_patient_id = None, pr_pm_id = Some 101, pr_pm_key = Some ''k1'', pr_pm_value = Some ''v1''\<rparr>]))"
    by blast
  moreover have "p_id (hd (get_patients_metadata_patients [\<lparr>pr_p_id = 1, pr_p_project_id = 7, pr_p_ext_patient_id = ''A'', pr_p_ext_patient_url = ''u1'',
        pr_p_public_patient_id = None, pr_pm_id = Some 101, pr_pm_key = Some ''k1'', pr_pm_value = Some ''v1''\<rparr>, \<lparr>pr_p_id = 1, pr_p_project_id = 7, pr_p_ext_patient_id = ''A'', pr_p_ext_patient_url = ''u1'',
        pr_p_public_patient_id = None, pr_pm_id = Some 101, pr_pm_key = Some ''k1'', pr_pm_value = Some ''v1''\<rparr>])) = 1"
    by (subst out) simp
  ultimately have "p_metadata (hd (get_patients_metadata_patients [\<lparr>pr_p_id = 1, pr_p_project_id = 7, pr_p_ext_patient_id = ''A'', pr_p_ext_patient_url = ''u1'',
        pr_p_public_patient_id = None, pr_pm_id = Some 101, pr_pm_key = Some ''k1'', pr_pm_value = Some ''v1''\<rparr>, \<lparr>pr_p_id = 1, pr_p_project_id = 7, pr_p_ext_patient_id = ''A'', pr_p_ext_patient_url = ''u1'',
        pr_p_public_patient_id = None, pr_pm_id = Some 101, pr_pm_key = Some ''k1'', pr_pm_value = Some ''v1''\<rparr>])) =
     [\<lparr>pm_id = 101, pm_patient_id = 1, pm_key = Some ''k1'', pm_value = Some ''v1''\<rparr>,
       \<lparr>pm_id = 101, pm_patient_id = 1, pm_key = Some ''k1'', pm_value = Some ''v1''\<rparr>]"
    by simp
  with out show ?thesis by simp
qed

text \<open>
  C10. At each of the three append sites the guard is the truth value of the id column:
  the child entries of the output, read across the parents in order, are the entries of
  the rows whose id is neither null nor 0. A row whose id is 0 adds no entry.
\<close>

theorem falsy_child_id_omitted:
  "concat (map p_metadata (get_patients_metadata_patients rows)) =
     concat (map (\<lambda>row. case pr_pm_id row of
                None \<Rightarrow> []
              | Some i \<Rightarrow>
                  if i = 0 then []
                  else [\<lparr>pm_id = i, pm_patient_id = pr_p_id row,
                         pm_key = pr_pm_key row, pm_value = pr_pm_value row\<rparr>]) rows) \<and>
   concat (map s_metadata (get_patients_metadata_samples sample_rows)) =
     concat (map (\<lambda>row. case sr_sm_id row of
                None \<Rightarrow> []
              | Some i \<Rightarrow>
                  if i = 0 then []
                  else [\<lparr>sm_id = i, sm_sample_id = sr_s_id row,
                         sm_key = sr_sm_key row, sm_value = sr_sm_value row\<rparr>]) sample_rows) \<and>
   concat (map sp_metadata (get_samples_per_patient_samples sp_rows)) =
     concat (map (\<lambda>row. case spr_metadata_id row of
                None \<Rightarrow> []
              | Some i \<Rightarrow>
                  if i = 0 then []
                  else [\<lparr>sm_id = i, sm_sample_id = spr_sample_id row,
                         sm_key = spr_key row, sm_value = spr_value row\<rparr>]) sp_rows)"
  by (simp only: get_patients_metadata_patients_concat get_patients_metadata_samples_concat
      get_samples_per_patient_samples_concat patient_row_entries_fun sample_row_entries_fun
      sample_patient_row_entries_fun)

theorem falsy_child_id_omitted_witness:
  "concat (map p_metadata (get_patients_metadata_patients [\<lparr>pr_p_id = 1, pr_p_project_id = 7, pr_p_ext_patient_id = ''A'', pr_p_ext_patient_url = ''u1'',
        pr_p_public_patient_id = None, pr_pm_id = Some 0, pr_pm_key = Some ''k0'', pr_pm_value = Some ''v0''\<rparr>, \<lparr>pr_p_id = 1, pr_p_project_id = 7, pr_p_ext_patient_id = ''A'', pr_p_ext_patient_url = ''u1'',
        pr_p_public_patient_id = None, pr_pm_id = Some 101, pr_pm_key = Some ''k1'', pr_pm_value = Some ''v1''\<rparr>])) =
     [\<lparr>pm_id = 101, pm_patient_id = 1, pm_key = Some ''k1'', pm_value = Some ''v1''\<rparr>]"
  using falsy_child_id_omitted [of "[\<lparr>pr_p_id = 1, pr_p_project_id = 7, pr_p_ext_patient_id = ''A'', pr_p_ext_patient_url = ''u1'',
        pr_p_public_patient_id = None, pr_pm_id = Some 0, pr_pm_key = Some ''k0'', pr_pm_value = Some ''v0''\<rparr>, \<lparr>pr_p_id = 1, pr_p_project_id = 7, pr_p_ext_patient_id = ''A'', pr_p_ext_patient_url = ''u1'',
        pr_p_public_patient_id = None, pr_pm_id = Some 101, pr_pm_key = Some ''k1'', pr_pm_value = Some ''v1''\<rparr>]" "[]" "[]"]
  by simp

text \<open>
  C3. The claim that a call with no filter returns a query with no WHERE clause fails
  for \<^verbatim>\<open>get_datasets\<close>: its base query ends in \<^verbatim>\<open>WHERE 1=1\<close>.
\<close>

theorem get_datasets_no_filter_has_where:
  "sublist ''WHERE'' (fst (get_datasets_query None None))"
  by code_simp

text \<open>
  C3, as the code has it: with no filter \<^verbatim>\<open>get_datasets\<close> returns its base query, which
  ends in the constant clause \<^verbatim>\<open>WHERE 1=1\<close>, and no parameter; each supplied filter adds
  one \<^verbatim>\<open>AND column = %s\<close> and its value, project id before dataset id; a filter that is
  not supplied adds no text and no parameter. \<^verbatim>\<open>get_patients\<close> returns its base query and
  the grouping suffix, with no WHERE clause and no parameter when the project id is not
  supplied, and with \<^verbatim>\<open>WHERE p.project_id = %s\<close> and the value when it is.
\<close>

theorem query_builders_text_and_params:
  "get_datasets_query None None =
     (''SELECT id, project_id, name FROM datasets WHERE 1=1'', []) \<and>
   get_datasets_query (Some p) None =
     (''SELECT id, project_id, name FROM datasets WHERE 1=1 AND project_id = %s'', [p]) \<and>
   get_datasets_query None (Some d) =
     (''SELECT id, project_id, name FROM datasets WHERE 1=1 AND id = %s'', [d]) \<and>
   get_datasets_query (Some p) (Some d) =
     (''SELECT id, project_id, name FROM datasets WHERE 1=1 AND project_id = %s AND id = %s'',
      [p, d]) \<and>
   get_patients_query None =
     ([CHR 0x0A] @
      ''            SELECT p.id, p.project_id, p.ext_patient_id, p.ext_patient_url,'' @ [CHR 0x0A] @
      ''                   p.public_patient_id, COUNT(s.id) AS sample_count'' @ [CHR 0x0A] @
      ''            FROM patients p'' @ [CHR 0x0A] @
      ''            LEFT JOIN samples s ON p.id = s.patient_id'' @ [CHR 0x0A] @
      ''         GROUP BY p.id ORDER BY p.id'', []) \<and>
   \<not> sublist ''WHERE'' (fst (get_patients_query None)) \<and>
   get_patients_query (Some p) =
     ([CHR 0x0A] @
      ''            SELECT p.id, p.project_id, p.ext_patient_id, p.ext_patient_url,'' @ [CHR 0x0A] @
      ''                   p.public_patient_id, COUNT(s.id) AS sample_count'' @ [CHR 0x0A] @
      ''            FROM patients p'' @ [CHR 0x0A] @
      ''            LEFT JOIN samples s ON p.id = s.patient_id'' @ [CHR 0x0A] @
      ''         WHERE p.project_id = %s GROUP BY p.id ORDER BY p.id'', [p])"
proof -
  have "\<not> sublist ''WHERE'' (fst (get_patients_query None))"
    by code_simp
  then show ?thesis
    by (simp add: get_datasets_query_def get_patients_query_def)
qed

theorem query_builders_text_and_params_witness:
  "get_datasets_query (Some 3) (Some 4) =
     (''SELECT id, project_id, name FROM datasets WHERE 1=1 AND project_id = %s AND id = %s'',
      [3, 4])"
  using query_builders_text_and_params [of 3 4] by simp

text \<open>
  C9. \<^verbatim>\<open>get_dataset_with_metadata\<close>: when no dataset row has the given id and project id
  and the store answers, the handler raises \<^verbatim>\<open>HTTPException\<close> 404 "Dataset not found",
  which the \<^verbatim>\<open>except Error\<close> clause does not catch; when the store fails first, it raises
  \<^verbatim>\<open>HTTPException\<close> 500 with the store's message.
\<close>

theorem get_dataset_with_metadata_not_found:
  assumes "filter (\<lambda>d. d_id d = dataset_id \<and> d_project_id d = project_id) (datasets db) = []"
  shows "((\<forall>x\<in>set (take 2 outcomes). x = None) \<longrightarrow>
            get_dataset_with_metadata db outcomes dataset_id project_id =
              Inl (HTTPException 404 ''Dataset not found'')) \<and>
         (\<forall>msg rest. outcomes = Some msg # rest \<or> outcomes = None # Some msg # rest \<longrightarrow>
            get_dataset_with_metadata db outcomes dataset_id project_id =
              Inl (HTTPException 500 (''Database error: '' @ msg)))"
proof (intro conjI allI impI)
  assume ok: "\<forall>x\<in>set (take 2 outcomes). x = None"
  then have "\<forall>x\<in>set (take (Suc 1) outcomes). x = None"
    by (simp add: numeral_2_eq_2)
  from interaction_ok [OF this]
  have i1: "interaction outcomes = Inr (tl outcomes)"
    and "\<forall>x\<in>set (take (Suc 0) (tl outcomes)). x = None"
    by simp_all
  from interaction_ok [OF this(2)]
  have i2: "interaction (tl outcomes) = Inr (tl (tl outcomes))"
    by simp
  show "get_dataset_with_metadata db outcomes dataset_id project_id =
      Inl (HTTPException 404 ''Dataset not found'')"
    by (simp add: get_dataset_with_metadata_def i1 i2 assms)
next
  fix msg rest
  assume "outcomes = Some msg # rest \<or> outcomes = None # Some msg # rest"
  then show "get_dataset_with_metadata db outcomes dataset_id project_id =
      Inl (HTTPException 500 (''Database error: '' @ msg))"
    by (auto simp: get_dataset_with_metadata_def)
qed

theorem get_dataset_with_metadata_not_found_witness:
  "get_dataset_with_metadata
     \<lparr>datasets = [\<lparr>d_id = 1, d_project_id = 1, d_name = ''d1''\<rparr>], datasets_metadata = []\<rparr>
     [] 2 1 = Inl (HTTPException 404 ''Dataset not found'') \<and>
   get_dataset_with_metadata
     \<lparr>datasets = [\<lparr>d_id = 1, d_project_id = 1, d_name = ''d1''\<rparr>], datasets_metadata = []\<rparr>
     [None, Some ''connection lost''] 2 1 =
       Inl (HTTPException 500 (''Database error: '' @ ''connection lost''))"
proof -
  let ?db = "\<lparr>datasets = [\<lparr>d_id = 1, d_project_id = 1, d_name = ''d1''\<rparr>], datasets_metadata = []\<rparr>"
  have h: "filter (\<lambda>d. d_id d = 2 \<and> d_project_id d = 1) (datasets ?db) = []"
    by simp
  have ok: "\<forall>x\<in>set (take 2 ([] :: string option list)). x = None"
    by simp
  from get_dataset_with_metadata_not_found [OF h, of "[]"] ok
  have "get_dataset_with_metadata ?db [] 2 1 = Inl (HTTPException 404 ''Dataset not found'')"
    by blast
  moreover from get_dataset_with_metadata_not_found [OF h, of "[None, Some ''connection lost'']"]
  have "get_dataset_with_metadata ?db [None, Some ''connection lost''] 2 1 =
       Inl (HTTPException 500 (''Database error: '' @ ''connection lost''))"
    by blast
  ultimately show ?thesis by (rule conjI)
qed

text \<open>
  C4. \<^verbatim>\<open>update_metadata\<close> reads \<^verbatim>\<open>update.raw_file_size\<close>, which \<^verbatim>\<open>MetadataUpdate\<close> does not
  declare (it declares \<^verbatim>\<open>file_size\<close>): for every request that carries a size in
  \<^verbatim>\<open>file_size\<close>, the guard of the first block raises \<^verbatim>\<open>AttributeError\<close>, and the store is
  left as it was, so the size is never written.
\<close>

theorem update_metadata_reads_undeclared_field:
  assumes "mu_file_size update = Some sz"
  shows "MetadataUpdate_getattr update ''file_size'' = Inr (PyStr sz) \<and>
         MetadataUpdate_getattr update ''raw_file_size'' = Inl (AttributeError ''raw_file_size'') \<and>
         snd (update_metadata sv db outcomes update) = db \<and>
         ((\<forall>x\<in>set (take 1 outcomes). x = None) \<longrightarrow>
            fst (update_metadata sv db outcomes update) = Inl (AttributeError ''raw_file_size'')) \<and>
         (\<forall>msg rest. outcomes = Some msg # rest \<longrightarrow>
            fst (update_metadata sv db outcomes update) =
              Inl (HTTPException 500 (''Database error: '' @ msg)))"
proof (intro conjI allI impI)
  show "MetadataUpdate_getattr update ''file_size'' = Inr (PyStr sz)"
    using assms by (simp add: MetadataUpdate_getattr_def)
  show "MetadataUpdate_getattr update ''raw_file_size'' = Inl (AttributeError ''raw_file_size'')"
    by (rule raw_file_size_undeclared)
  show "snd (update_metadata sv db outcomes update) = db"
    by (cases outcomes rule: interaction.cases)
       (simp_all add: update_metadata_def raw_file_size_undeclared)
  show "fst (update_metadata sv db outcomes update) = Inl (AttributeError ''raw_file_size'')"
    if "\<forall>x\<in>set (take 1 outcomes). x = None"
    using that by (cases outcomes rule: interaction.cases)
       (simp_all add: update_metadata_def raw_file_size_undeclared)
  show "fst (update_metadata sv db outcomes update) =
      Inl (HTTPException 500 (''Database error: '' @ msg))"
    if "outcomes = Some msg # rest" for msg rest
    using that by (simp add: update_metadata_def)
qed

theorem update_metadata_reads_undeclared_field_witness:
  "MetadataUpdate_getattr
     \<lparr>mu_dataset_id = 5, mu_file_size = Some ''2048'', mu_last_size_update = Some ''2024-01-01''\<rparr>
     ''file_size'' = Inr (PyStr ''2048'') \<and>
   update_metadata \<lparr>sv_first = (\<lambda>rows. 0), sv_nextval = (\<lambda>table. 2)\<rparr>
     \<lparr>datasets = [\<lparr>d_id = 5, d_project_id = 1, d_name = ''d5''\<rparr>],
      datasets_metadata =
        [\<lparr>dm_id = 1, dm_dataset_id = 5, dm_key = ''raw_file_extension_size_of_all_files'',
          dm_value = PyStr ''1024''\<rparr>]\<rparr>
     []
     \<lparr>mu_dataset_id = 5, mu_file_size = Some ''2048'', mu_last_size_update = Some ''2024-01-01''\<rparr>
   = (Inl (AttributeError ''raw_file_size''),
      \<lparr>datasets = [\<lparr>d_id = 5, d_project_id = 1, d_name = ''d5''\<rparr>],
       datasets_metadata =
         [\<lparr>dm_id = 1, dm_dataset_id = 5, dm_key = ''raw_file_extension_size_of_all_files'',
           dm_value = PyStr ''1024''\<rparr>]\<rparr>)"
proof -
  let ?sv = "\<lparr>sv_first = (\<lambda>rows. 0), sv_nextval = (\<lambda>table. 2)\<rparr>"
  let ?u = "\<lparr>mu_dataset_id = 5, mu_file_size = Some ''2048'', mu_last_size_update = Some ''2024-01-01''\<rparr>"
  let ?db = "\<lparr>datasets = [\<lparr>d_id = 5, d_project_id = 1, d_name = ''d5''\<rparr>],
      datasets_metadata =
        [\<lparr>dm_id = 1, dm_dataset_id = 5, dm_key = ''raw_file_extension_size_of_all_files'',
          dm_value = PyStr ''1024''\<rparr>]\<rparr>"
  have h: "mu_file_size ?u = Some ''2048''" by simp
  have ok: "\<forall>x\<in>set (take 1 ([] :: string option list)). x = None" by simp
  from update_metadata_reads_undeclared_field [OF h, of ?sv ?db "[]"] ok
  have "MetadataUpdate_getattr ?u ''file_size'' = Inr (PyStr ''2048'')"
    and "snd (update_metadata ?sv ?db [] ?u) = ?db"
    and "fst (update_metadata ?sv ?db [] ?u) = Inl (AttributeError ''raw_file_size'')"
    by blast+
  then show ?thesis
    by (simp add: prod_eq_iff)
qed

text \<open>
  C2. The handler run twice for dataset 5, with \<^verbatim>\<open>last_size_update\<close> "v1" and then "v2",
  on a store with no metadata row: both calls raise \<^verbatim>\<open>AttributeError\<close> at the guard of the
  first block, and no row for (5, \<^verbatim>\<open>last_size_update\<close>) exists afterwards, whatever the
  server chooses.
\<close>

theorem update_metadata_twice_no_row:
  "update_metadata sv
     \<lparr>datasets = [\<lparr>d_id = 5, d_project_id = 1, d_name = ''d5''\<rparr>], datasets_metadata = []\<rparr>
     []
     \<lparr>mu_dataset_id = 5, mu_file_size = None, mu_last_size_update = Some ''v1''\<rparr>
   = (Inl (AttributeError ''raw_file_size''),
      \<lparr>datasets = [\<lparr>d_id = 5, d_project_id = 1, d_name = ''d5''\<rparr>], datasets_metadata = []\<rparr>) \<and>
   update_metadata sv
     \<lparr>datasets = [\<lparr>d_id = 5, d_project_id = 1, d_name = ''d5''\<rparr>], datasets_metadata = []\<rparr>
     []
     \<lparr>mu_dataset_id = 5, mu_file_size = None, mu_last_size_update = Some ''v2''\<rparr>
   = (Inl (AttributeError ''raw_file_size''),
      \<lparr>datasets = [\<lparr>d_id = 5, d_project_id = 1, d_name = ''d5''\<rparr>], datasets_metadata = []\<rparr>) \<and>
   filter (\<lambda>row. dm_dataset_id row = 5 \<and> dm_key row = ''last_size_update'')
     (datasets_metadata
        (snd (update_metadata sv
           (snd (update_metadata sv
              \<lparr>datasets = [\<lparr>d_id = 5, d_project_id = 1, d_name = ''d5''\<rparr>], datasets_metadata = []\<rparr>
              []
              \<lparr>mu_dataset_id = 5, mu_file_size = None, mu_last_size_update = Some ''v1''\<rparr>))
           []
           \<lparr>mu_dataset_id = 5, mu_file_size = None, mu_last_size_update = Some ''v2''\<rparr>))) = []"
  by (simp add: update_metadata_def MetadataUpdate_getattr_def)

end
